theory Spec2Isabelle
  imports
    Complex_Main
    "HOL-Library.Word"
    "HOL-Library.Multiset"
    "HOL-Library.Char_ord"
    "HOL-Library.List_Lexorder"
    "HOL-Library.Product_Lexorder"
begin

section \<open>Data model\<close>

text \<open>
  The program (\<^verbatim>\<open>src/data.py\<close>) is a linear pipeline over one pandas DataFrame:
  \<^verbatim>\<open>load_csv\<close>, \<^verbatim>\<open>basic_eda\<close>, \<^verbatim>\<open>sales_by_product\<close>, \<^verbatim>\<open>monthly_sales_trend\<close> and
  the write in \<^verbatim>\<open>main\<close>.  The functions of the script are embedded line by line; the
  pandas, matplotlib and pathlib operations they call are embedded by their library
  semantics, each in a definition named after the library operation.

  A DataFrame is an ordered list of named, typed columns.  A column has one dtype, as in
  pandas:
  \<^item> int64: 64-bit integers, whose sums wrap around; such a column has no missing value;
  \<^item> float64: values of a type \<open>'f\<close> with a linear order, \<open>None\<close> for NaN.  Nothing is
    assumed of float addition: the sum of a list of floats is a function of the library
    (\<open>float_sum\<close> below), so no law of exact arithmetic is used on floats;
  \<^item> object: text, \<open>None\<close> for a missing cell;
  \<^item> timestamps and monthly periods, \<open>None\<close> for NaT.
  Column names are taken to be distinct, as \<^verbatim>\<open>pd.read_csv\<close> makes them, and a lookup by
  name takes the first match.
\<close>

type_synonym int64 = "64 word"

type_synonym Timestamp = "int \<times> nat \<times> nat"
  \<comment> \<open>year, month, day; the time of day plays no role in a monthly period\<close>

type_synonym Period = "int \<times> nat"
  \<comment> \<open>year, month: a pandas \<^verbatim>\<open>Period\<close> of frequency M; the lexicographic order is chronological\<close>

datatype 'f column =
    IntCol "int64 list"
  | FloatCol "'f option list"
  | StrCol "string option list"
  | DateCol "Timestamp option list"
  | PeriodCol "Period option list"

type_synonym 'f DataFrame = "(string \<times> 'f column) list"

datatype 'f cell = NA | I64 int64 | F64 'f | Str string | Date Timestamp | Month Period

fun cells :: "'f column \<Rightarrow> 'f cell list" where
  "cells (IntCol xs) = map I64 xs"
| "cells (FloatCol xs) = map (\<lambda>x. case x of None \<Rightarrow> NA | Some v \<Rightarrow> F64 v) xs"
| "cells (StrCol xs) = map (\<lambda>x. case x of None \<Rightarrow> NA | Some s \<Rightarrow> Str s) xs"
| "cells (DateCol xs) = map (\<lambda>x. case x of None \<Rightarrow> NA | Some t \<Rightarrow> Date t) xs"
| "cells (PeriodCol xs) = map (\<lambda>x. case x of None \<Rightarrow> NA | Some p \<Rightarrow> Month p) xs"

definition col_len :: "'f column \<Rightarrow> nat" where
  "col_len c = length (cells c)"

definition notna :: "'f column \<Rightarrow> bool list" where
  "notna c = map (\<lambda>x. x \<noteq> NA) (cells c)"

definition columns :: "'f DataFrame \<Rightarrow> string list" where
  "columns df = map fst df"

definition len_df :: "'f DataFrame \<Rightarrow> nat" where
  "len_df df = (case df of [] \<Rightarrow> 0 | (n, c) # rest \<Rightarrow> col_len c)"

definition get_col :: "'f DataFrame \<Rightarrow> string \<Rightarrow> 'f column option" where
  \<comment> \<open>\<^verbatim>\<open>df[name]\<close>; \<open>None\<close> stands for the KeyError of an absent name\<close>
  "get_col df name = map_of df name"

fun setitem :: "'f DataFrame \<Rightarrow> string \<Rightarrow> 'f column \<Rightarrow> 'f DataFrame" where
  \<comment> \<open>\<^verbatim>\<open>df[name] = col\<close>: an existing column is replaced in place, a new one is appended\<close>
  "setitem [] name col = [(name, col)]"
| "setitem ((n, c) # rest) name col =
     (if n = name then (n, col) # rest else (n, c) # setitem rest name col)"

section \<open>The library operations used by the aggregations\<close>

text \<open>
  What ends a run early: \<^verbatim>\<open>sys.exit\<close> with its message, or an exception, given by its
  class and the library call that raises it.
\<close>

datatype exn = KeyError | TypeError | ValueError | IndexError | AttributeError

datatype call =
    In_getitem | In_describe | In_sum | In_sort_values | In_plot
  | In_to_datetime | In_dt | In_with_name

datatype error = SystemExit string | Raised exn call

datatype conv = Fails | IsNaT | IsTime Timestamp

text \<open>
  Three things are the library's own matter and parameters of the model:
  \<^item> \<open>convert\<close>: what \<^verbatim>\<open>pd.to_datetime\<close> makes of one text or number: a timestamp, NaT, or
    a failure;
  \<^item> \<open>float_sum\<close>: the float64 sum of the values of a group, in row order;
  \<^item> \<open>ties\<close>: where the sort of \<^verbatim>\<open>sort_values\<close> puts equal values.  The default sort kind
    is not stable; it sees the values through comparisons only, so the rank it gives to
    the entry at a position among its equals is a function of the order pattern of the
    values and of the position.
\<close>

record 'f library =
  convert :: "'f cell \<Rightarrow> conv"
  float_sum :: "'f list \<Rightarrow> 'f"
  ties :: "nat list \<Rightarrow> nat \<Rightarrow> nat"

definition group_keys :: "('k::linorder) option list \<Rightarrow> 'k list" where
  \<comment> \<open>\<^verbatim>\<open>groupby\<close> with its defaults \<^verbatim>\<open>sort=True, dropna=True\<close>: the distinct keys that are not
      missing, in ascending order\<close>
  "group_keys ks = sort (remdups (List.map_filter id ks))"

definition group_values :: "'k option list \<Rightarrow> 'v list \<Rightarrow> 'k \<Rightarrow> 'v list" where
  \<comment> \<open>the values of the rows whose key is \<open>k\<close>, in row order\<close>
  "group_values ks vs k = map snd (filter (\<lambda>(k', v). k' = Some k) (zip ks vs))"

definition groupby_agg ::
  "('v list \<Rightarrow> 'a) \<Rightarrow> ('k::linorder) option list \<Rightarrow> 'v list \<Rightarrow> ('k \<times> 'a) list" where
  \<comment> \<open>\<^verbatim>\<open>df.groupby(key)[val].agg(f)\<close> on the key cells \<open>ks\<close> and the value cells \<open>vs\<close>\<close>
  "groupby_agg f ks vs = map (\<lambda>k. (k, f (group_values ks vs k))) (group_keys ks)"

datatype 'f label = LInt int | LFlt 'f | LStr string | LDate Timestamp | LMonth Period

definition groupby_col ::
  "('v list \<Rightarrow> 'a) \<Rightarrow> ('f::linorder) column \<Rightarrow> 'v list \<Rightarrow> ('f label \<times> 'a) list" where
  \<comment> \<open>the group keys are ordered by the order of the key column's dtype; int64 keys by
      their signed value\<close>
  "groupby_col f kc vs =
     (case kc of
        IntCol ks \<Rightarrow> map (\<lambda>(k, a). (LInt k, a)) (groupby_agg f (map (\<lambda>k. Some (sint k)) ks) vs)
      | FloatCol ks \<Rightarrow> map (\<lambda>(k, a). (LFlt k, a)) (groupby_agg f ks vs)
      | StrCol ks \<Rightarrow> map (\<lambda>(k, a). (LStr k, a)) (groupby_agg f ks vs)
      | DateCol ks \<Rightarrow> map (\<lambda>(k, a). (LDate k, a)) (groupby_agg f ks vs)
      | PeriodCol ks \<Rightarrow> map (\<lambda>(k, a). (LMonth k, a)) (groupby_agg f ks vs))"

datatype obj = OInt int | OStr string
  \<comment> \<open>the Python objects in the sum of a text column\<close>

definition text_sum :: "string option list \<Rightarrow> obj" where
  \<comment> \<open>the sum of a group of an object column: the texts of the group concatenated in row
      order, missing cells skipped; the integer 0 for a group without text\<close>
  "text_sum xs =
     (let ss = List.map_filter id xs in if ss = [] then OInt 0 else OStr (concat ss))"

fun is_text :: "obj \<Rightarrow> bool" where
  "is_text (OStr s) = True"
| "is_text (OInt n) = False"

fun text_of :: "obj \<Rightarrow> string" where
  "text_of (OStr s) = s"
| "text_of (OInt n) = []"

fun int_of_obj :: "obj \<Rightarrow> int" where
  "int_of_obj (OInt n) = n"
| "int_of_obj (OStr s) = 0"

datatype 'f series =
    IntSeries "('f label \<times> int64) list"
  | FloatSeries "('f label \<times> 'f) list"
  | ObjSeries "('f label \<times> obj) list"
  \<comment> \<open>a pandas Series of sums: index label and value, in the order of the Series\<close>

definition groupby_named_sum ::
  "('f::linorder) library \<Rightarrow> 'f DataFrame \<Rightarrow> string \<Rightarrow> string \<Rightarrow> error + 'f series" where
  \<comment> \<open>\<^verbatim>\<open>df.groupby(key)[val].sum()\<close>: int64 sums wrap around; float sums skip NaN; the sum
      of text is concatenation; timestamps and periods have no sum\<close>
  "groupby_named_sum lib df key val =
     (case get_col df key of
        None \<Rightarrow> Inl (Raised KeyError In_getitem)
      | Some kc \<Rightarrow>
          (case get_col df val of
             None \<Rightarrow> Inl (Raised KeyError In_getitem)
           | Some (IntCol vs) \<Rightarrow> Inr (IntSeries (groupby_col sum_list kc vs))
           | Some (FloatCol vs) \<Rightarrow>
               Inr (FloatSeries (groupby_col (\<lambda>g. float_sum lib (List.map_filter id g)) kc vs))
           | Some (StrCol vs) \<Rightarrow> Inr (ObjSeries (groupby_col text_sum kc vs))
           | Some (DateCol vs) \<Rightarrow> Inl (Raised TypeError In_sum)
           | Some (PeriodCol vs) \<Rightarrow> Inl (Raised TypeError In_sum)))"

definition order_pattern :: "('o::linorder) list \<Rightarrow> nat list" where
  \<comment> \<open>for each position, how many values are smaller than the one there\<close>
  "order_pattern vs = map (\<lambda>v. length (filter (\<lambda>u. u < v) vs)) vs"

definition sort_desc ::
  "(nat list \<Rightarrow> nat \<Rightarrow> nat) \<Rightarrow> ('v \<Rightarrow> 'o::linorder) \<Rightarrow> ('k \<times> 'v) list \<Rightarrow> ('k \<times> 'v) list" where
  \<comment> \<open>the entries in descending order of \<open>key\<close>; among equal keys in descending order of
      the rank \<open>tb\<close> gives to their positions, and of position among equal ranks\<close>
  "sort_desc tb key xs =
     (let pat = order_pattern (map (\<lambda>(k, v). key v) xs)
      in map snd (rev (sort_key (\<lambda>(i, (k, v)). (key v, tb pat i)) (enumerate 0 xs))))"

definition sort_values_desc :: "('f::linorder) library \<Rightarrow> 'f series \<Rightarrow> error + 'f series" where
  \<comment> \<open>\<^verbatim>\<open>Series.sort_values(ascending=False)\<close>: int64 by signed value; an object Series of
      texts by text, of integers by value, and a mixed one raises at the first comparison
      of a text with an integer\<close>
  "sort_values_desc lib s =
     (case s of
        IntSeries xs \<Rightarrow> Inr (IntSeries (sort_desc (ties lib) sint xs))
      | FloatSeries xs \<Rightarrow> Inr (FloatSeries (sort_desc (ties lib) (\<lambda>v. v) xs))
      | ObjSeries xs \<Rightarrow>
          if list_all (\<lambda>(k, v). is_text v) xs
          then Inr (ObjSeries (sort_desc (ties lib) text_of xs))
          else if list_all (\<lambda>(k, v). \<not> is_text v) xs
          then Inr (ObjSeries (sort_desc (ties lib) int_of_obj xs))
          else Inl (Raised TypeError In_sort_values))"

datatype chart_kind = Bar | Line

definition plot_error :: "chart_kind \<Rightarrow> 'f series \<Rightarrow> error option" where
  \<comment> \<open>the exception of \<^verbatim>\<open>Series.plot\<close>, if it raises.  An object Series is plotted when its
      values are inferred to be numbers, which needs a value and no text; otherwise there
      is no numeric data to plot (TypeError).  The bar plot of an empty numeric Series
      raises IndexError, its line plot ValueError.\<close>
  "plot_error kind s =
     (let empty = (case kind of Bar \<Rightarrow> Raised IndexError In_plot
                               | Line \<Rightarrow> Raised ValueError In_plot)
      in case s of
           IntSeries xs \<Rightarrow> if xs = [] then Some empty else None
         | FloatSeries xs \<Rightarrow> if xs = [] then Some empty else None
         | ObjSeries xs \<Rightarrow>
             if xs \<noteq> [] \<and> list_all (\<lambda>(k, v). \<not> is_text v) xs then None
             else Some (Raised TypeError In_plot))"

definition convert_cells :: "'f library \<Rightarrow> 'f column \<Rightarrow> conv list" where
  \<comment> \<open>the element conversion of \<^verbatim>\<open>pd.to_datetime\<close>: a missing cell becomes NaT, a timestamp
      stays what it is, a text or number is converted by the library\<close>
  "convert_cells lib c =
     map (\<lambda>x. case x of NA \<Rightarrow> IsNaT | Date t \<Rightarrow> IsTime t | _ \<Rightarrow> convert lib x) (cells c)"

definition to_datetime :: "'f library \<Rightarrow> 'f column \<Rightarrow> error + 'f column" where
  \<comment> \<open>\<^verbatim>\<open>pd.to_datetime(col)\<close> with its default \<^verbatim>\<open>errors='raise'\<close>: one cell that does not
      convert raises ValueError for the whole column\<close>
  "to_datetime lib c =
     (case c of
        PeriodCol ps \<Rightarrow> Inl (Raised TypeError In_to_datetime)
      | _ \<Rightarrow>
          (let cs = convert_cells lib c
           in if Fails \<in> set cs then Inl (Raised ValueError In_to_datetime)
              else Inr (DateCol (map (\<lambda>r. case r of IsTime t \<Rightarrow> Some t | _ \<Rightarrow> None) cs))))"

definition to_period :: "Timestamp \<Rightarrow> Period" where
  \<comment> \<open>the calendar month of a timestamp: the day is dropped\<close>
  "to_period t = (case t of (y, m, d) \<Rightarrow> (y, m))"

definition to_period_M :: "'f column \<Rightarrow> error + 'f column" where
  \<comment> \<open>\<^verbatim>\<open>col.dt.to_period("M")\<close>: the month of each timestamp, NaT stays missing; the
      accessor \<^verbatim>\<open>.dt\<close> exists on timestamp columns only\<close>
  "to_period_M c =
     (case c of
        DateCol ts \<Rightarrow> Inr (PeriodCol (map (map_option to_period) ts))
      | _ \<Rightarrow> Inl (Raised AttributeError In_dt))"

definition count_na :: "'f column \<Rightarrow> nat" where
  "count_na c = length (filter (\<lambda>x. x = NA) (cells c))"

definition cell_at :: "'f column \<Rightarrow> nat \<Rightarrow> 'f cell" where
  \<comment> \<open>the columns of a frame have one length, so the second branch is never taken on one\<close>
  "cell_at c i = (if i < col_len c then cells c ! i else NA)"

definition rows :: "'f DataFrame \<Rightarrow> 'f cell list list" where
  "rows df = map (\<lambda>i. map (\<lambda>(n, c). cell_at c i) df) [0..<len_df df]"

definition to_csv :: "'f DataFrame \<Rightarrow> bool \<Rightarrow> 'f cell list list" where
  \<comment> \<open>\<^verbatim>\<open>df.to_csv(path, index=index)\<close>, as the grid of fields written: the header line
      (default \<^verbatim>\<open>header=True\<close>), then one line per row; with \<open>index\<close> a leading column
      holds the row numbers under an empty header field\<close>
  "to_csv df index =
     (if index
      then (Str [] # map Str (columns df)) #
           map (\<lambda>(i, r). I64 (of_nat i) # r) (enumerate 0 (rows df))
      else map Str (columns df) # rows df)"

section \<open>Paths\<close>

text \<open>
  A \<^verbatim>\<open>pathlib.Path\<close> (POSIX flavour) is its anchor (empty or the root) and its parts
  after the anchor; no part is empty, is \<^verbatim>\<open>.\<close> or holds a separator.
\<close>

datatype Path = Path (anchor: string) (parts: "string list")

definition wf_path :: "Path \<Rightarrow> bool" where
  "wf_path p \<longleftrightarrow> list_all (\<lambda>s. s \<noteq> [] \<and> s \<noteq> ''.'' \<and> CHR ''/'' \<notin> set s) (parts p)"

fun join_parts :: "string list \<Rightarrow> string" where
  "join_parts [] = []"
| "join_parts [s] = s"
| "join_parts (s # t # rest) = s @ ''/'' @ join_parts (t # rest)"

definition path_str :: "Path \<Rightarrow> string" where
  \<comment> \<open>\<^verbatim>\<open>str(path)\<close>\<close>
  "path_str p = (if anchor p = [] \<and> parts p = [] then ''.'' else anchor p @ join_parts (parts p))"

definition name :: "Path \<Rightarrow> string" where
  "name p = (if parts p = [] then [] else last (parts p))"

definition parent :: "Path \<Rightarrow> Path" where
  "parent p = Path (anchor p) (butlast (parts p))"

fun rfind :: "char \<Rightarrow> string \<Rightarrow> nat option" where
  \<comment> \<open>\<^verbatim>\<open>s.rfind(c)\<close>, with \<open>None\<close> for -1\<close>
  "rfind c [] = None"
| "rfind c (x # xs) =
     (case rfind c xs of
        Some i \<Rightarrow> Some (Suc i)
      | None \<Rightarrow> if x = c then Some 0 else None)"

definition suffix :: "Path \<Rightarrow> string" where
  \<comment> \<open>\<^verbatim>\<open>i = name.rfind('.'); name[i:] if 0 < i < len(name) - 1 else ''\<close>\<close>
  "suffix p =
     (let n = name p
      in case rfind (CHR ''.'') n of
           None \<Rightarrow> []
         | Some i \<Rightarrow> if 0 < i \<and> Suc i < length n then drop i n else [])"

definition stem :: "Path \<Rightarrow> string" where
  \<comment> \<open>\<^verbatim>\<open>name[:i] if 0 < i < len(name) - 1 else name\<close>\<close>
  "stem p =
     (let n = name p
      in case rfind (CHR ''.'') n of
           None \<Rightarrow> n
         | Some i \<Rightarrow> if 0 < i \<and> Suc i < length n then take i n else n)"

definition with_name :: "Path \<Rightarrow> string \<Rightarrow> error + Path" where
  \<comment> \<open>raises ValueError on a path with an empty name and on a new name that is not
      exactly one part\<close>
  "with_name p n =
     (if name p = [] then Inl (Raised ValueError In_with_name)
      else if n = [] \<or> n = ''.'' \<or> CHR ''/'' \<in> set n then Inl (Raised ValueError In_with_name)
      else Inr (Path (anchor p) (butlast (parts p) @ [n])))"

definition with_stem :: "Path \<Rightarrow> string \<Rightarrow> error + Path" where
  \<comment> \<open>\<^verbatim>\<open>return self.with_name(stem + self.suffix)\<close>\<close>
  "with_stem p s = with_name p (s @ suffix p)"

section \<open>The program\<close>

text \<open>
  The state of a run: the DataFrame objects alive (a reference is an index into
  \<open>heap\<close>), what was printed and plotted so far, in order, and the files written.
  An exception or \<^verbatim>\<open>sys.exit\<close> is the result \<open>Inl\<close>, paired with the state reached when
  it was raised.  The files present before the run are a parameter \<open>disk\<close>: a path that
  exists maps to what \<^verbatim>\<open>pd.read_csv\<close> makes of it, a frame or an error of the reader.
  A \<open>Plot\<close> event is a chart that was drawn and shown (lines 52 to 55 and 66 to 69); when
  the plotting call raises, there is none.
\<close>

datatype 'f event =
    PrintLoaded nat string
  | PrintColumns "string list"
  | PrintMissing "(string \<times> nat) list"
  | PrintSummary "'f DataFrame"
  | PrintSeries string "'f series"
  | Plot chart_kind string string "'f series"
  | PrintWritten Path

record 'f world =
  heap :: "'f DataFrame list"
  out :: "'f event list"
  written :: "(Path \<times> 'f cell list list) list"

definition frame :: "'f world \<Rightarrow> nat \<Rightarrow> 'f DataFrame" where
  \<comment> \<open>references come from \<open>load_csv\<close> and \<open>df_copy\<close> only, so they are never dangling\<close>
  "frame w r = (if r < length (heap w) then heap w ! r else [])"

definition df_copy :: "nat \<Rightarrow> 'f world \<Rightarrow> nat \<times> 'f world" where
  \<comment> \<open>\<^verbatim>\<open>df.copy()\<close>: a new object with the same content\<close>
  "df_copy r w = (length (heap w), w\<lparr>heap := heap w @ [frame w r]\<rparr>)"

definition df_setitem :: "nat \<Rightarrow> string \<Rightarrow> 'f column \<Rightarrow> 'f world \<Rightarrow> 'f world" where
  \<comment> \<open>\<^verbatim>\<open>df[name] = col\<close> mutates the object that \<open>r\<close> refers to\<close>
  "df_setitem r n c w = w\<lparr>heap := (heap w)[r := setitem (frame w r) n c]\<rparr>"

definition load_csv ::
  "(Path \<Rightarrow> (error + 'f DataFrame) option) \<Rightarrow> Path \<Rightarrow> 'f world \<Rightarrow> (error + nat) \<times> 'f world" where
  "load_csv disk path w =
     (case disk path of
        None \<Rightarrow> (Inl (SystemExit (''File not found: '' @ path_str path)), w)
      | Some (Inl e) \<Rightarrow> (Inl e, w)
      | Some (Inr df) \<Rightarrow>
          (Inr (length (heap w)),
           w\<lparr>heap := heap w @ [df],
             out := out w @ [PrintLoaded (len_df df) (name path)]\<rparr>))"

definition choose_file_gui :: "Path option \<Rightarrow> error + Path" where
  \<comment> \<open>\<open>picked\<close> is what the file dialog returns: \<open>None\<close> for the empty string of a
      dismissed dialog\<close>
  "choose_file_gui picked =
     (case picked of
        None \<Rightarrow> Inl (SystemExit '' No file selected. Exiting.'')
      | Some p \<Rightarrow> Inr p)"

definition basic_eda :: "nat \<Rightarrow> 'f world \<Rightarrow> (error + unit) \<times> 'f world" where
  \<comment> \<open>the statistics of \<^verbatim>\<open>describe\<close> are not computed: the event records the frame
      described.  \<^verbatim>\<open>describe\<close> raises ValueError on a frame without columns.\<close>
  "basic_eda df w =
     (let d = frame w df;
          w1 = w\<lparr>out := out w @ [PrintColumns (columns d)]\<rparr>;
          w2 = w1\<lparr>out := out w1 @ [PrintMissing (map (\<lambda>(n, c). (n, count_na c)) d)]\<rparr>
      in if columns d = [] then (Inl (Raised ValueError In_describe), w2)
         else (Inr (), w2\<lparr>out := out w2 @ [PrintSummary d]\<rparr>))"

definition sales_by_product_agg ::
  "('f::linorder) library \<Rightarrow> 'f DataFrame \<Rightarrow> error + 'f series" where
  \<comment> \<open>line 49: \<^verbatim>\<open>df.groupby("Product")["Sales"].sum().sort_values(ascending=False)\<close>\<close>
  "sales_by_product_agg lib d =
     (case groupby_named_sum lib d ''Product'' ''Sales'' of
        Inl e \<Rightarrow> Inl e
      | Inr grouped \<Rightarrow> sort_values_desc lib grouped)"

definition sales_by_product ::
  "('f::linorder) library \<Rightarrow> nat \<Rightarrow> 'f world \<Rightarrow> (error + unit) \<times> 'f world" where
  "sales_by_product lib df w =
     (if {''Product'', ''Sales''} \<subseteq> set (columns (frame w df)) then
        (case sales_by_product_agg lib (frame w df) of
           Inl e \<Rightarrow> (Inl e, w)
         | Inr agg \<Rightarrow>
             (let w1 = w\<lparr>out := out w @ [PrintSeries ''Sales by Product'' agg]\<rparr>
              in case plot_error Bar agg of
                   Some e \<Rightarrow> (Inl e, w1)
                 | None \<Rightarrow>
                     (Inr (),
                      w1\<lparr>out := out w1 @
                         [Plot Bar ''Sales by Product'' ''Total Sales'' agg]\<rparr>)))
      else (Inr (), w))"

definition monthly_sales_trend ::
  "('f::linorder) library \<Rightarrow> nat \<Rightarrow> 'f world \<Rightarrow> (error + unit) \<times> 'f world" where
  "monthly_sales_trend lib df0 w =
     (if {''Date'', ''Sales''} \<subseteq> set (columns (frame w df0)) then
        (let (df, w1) = df_copy df0 w
         in case get_col (frame w1 df) ''Date'' of
              None \<Rightarrow> (Inl (Raised KeyError In_getitem), w1)
            | Some c \<Rightarrow>
                (case to_datetime lib c of
                   Inl e \<Rightarrow> (Inl e, w1)
                 | Inr dates \<Rightarrow>
                     (let w2 = df_setitem df ''Date'' dates w1
                      in case get_col (frame w2 df) ''Date'' of
                           None \<Rightarrow> (Inl (Raised KeyError In_getitem), w2)
                         | Some d \<Rightarrow>
                             (case to_period_M d of
                                Inl e \<Rightarrow> (Inl e, w2)
                              | Inr months \<Rightarrow>
                                  (let w3 = df_setitem df ''Month'' months w2
                                   in case groupby_named_sum lib (frame w3 df)
                                             ''Month'' ''Sales'' of
                                        Inl e \<Rightarrow> (Inl e, w3)
                                      | Inr trend \<Rightarrow>
                                          (case plot_error Line trend of
                                             Some e \<Rightarrow> (Inl e, w3)
                                           | None \<Rightarrow>
                                               (Inr (),
                                                w3\<lparr>out := out w3 @
                                                  [Plot Line ''Monthly Sales Trend''
                                                     ''Total Sales'' trend]\<rparr>)))))))
      else (Inr (), w))"

definition main ::
  "('f::linorder) library \<Rightarrow> (Path \<Rightarrow> (error + 'f DataFrame) option) \<Rightarrow> Path option \<Rightarrow>
   Path option \<Rightarrow> 'f world \<Rightarrow> (error + unit) \<times> 'f world" where
  \<comment> \<open>\<open>args_file\<close> is \<^verbatim>\<open>args.file\<close>; a Path is truthy, so \<^verbatim>\<open>args.file or choose_file_gui()\<close>
      opens the dialog exactly when no \<^verbatim>\<open>--file\<close> was given\<close>
  "main lib disk args_file picked w =
     (case (case args_file of Some p \<Rightarrow> Inr p | None \<Rightarrow> choose_file_gui picked) of
        Inl e \<Rightarrow> (Inl e, w)
      | Inr csv_path \<Rightarrow>
          (case load_csv disk csv_path w of
             (Inl e, w1) \<Rightarrow> (Inl e, w1)
           | (Inr df, w1) \<Rightarrow>
               (case basic_eda df w1 of
                  (Inl e, w2) \<Rightarrow> (Inl e, w2)
                | (Inr u, w2) \<Rightarrow>
                    (case sales_by_product lib df w2 of
                       (Inl e, w3) \<Rightarrow> (Inl e, w3)
                     | (Inr u, w3) \<Rightarrow>
                         (case monthly_sales_trend lib df w3 of
                            (Inl e, w4) \<Rightarrow> (Inl e, w4)
                          | (Inr u, w4) \<Rightarrow>
                              (case with_stem csv_path (stem csv_path @ ''_cleaned'') of
                                 Inl e \<Rightarrow> (Inl e, w4)
                               | Inr out_path \<Rightarrow>
                                   (let w5 = w4\<lparr>written := written w4 @
                                               [(out_path, to_csv (frame w4 df) False)]\<rparr>
                                    in (Inr (),
                                        w5\<lparr>out := out w5 @ [PrintWritten out_path]\<rparr>))))))))"

section \<open>Quantities the properties are stated with\<close>

definition column_total :: "'f DataFrame \<Rightarrow> string \<Rightarrow> int64 option" where
  \<comment> \<open>the sum of an int64 column over the whole table, \<^verbatim>\<open>df[name].sum()\<close>\<close>
  "column_total df n =
     (case get_col df n of Some (IntCol vs) \<Rightarrow> Some (sum_list vs) | _ \<Rightarrow> None)"

definition series_total :: "'f series \<Rightarrow> int64 option" where
  \<comment> \<open>the sum of all aggregated values of an int64 result\<close>
  "series_total s = (case s of IntSeries xs \<Rightarrow> Some (sum_list (map snd xs)) | _ \<Rightarrow> None)"

definition rows_with :: "'f column \<Rightarrow> 'v list \<Rightarrow> 'v list" where
  \<comment> \<open>the values \<open>vs\<close> in the rows where the key column \<open>kc\<close> is not missing\<close>
  "rows_with kc vs = map snd (filter fst (zip (notna kc) vs))"

definition month_rows :: "Timestamp option list \<Rightarrow> 'v list \<Rightarrow> Period \<Rightarrow> 'v list" where
  \<comment> \<open>the values \<open>vs\<close> in the rows whose timestamp falls in the calendar month \<open>k\<close>\<close>
  "month_rows ts vs k = map snd (filter (\<lambda>(t, v). map_option to_period t = Some k) (zip ts vs))"

definition dated_rows :: "Timestamp option list \<Rightarrow> 'v list \<Rightarrow> 'v list" where
  \<comment> \<open>the values \<open>vs\<close> in the rows whose timestamp is not NaT\<close>
  "dated_rows ts vs = map snd (filter (\<lambda>(t, v). t \<noteq> None) (zip ts vs))"

definition first_seen :: "'a list \<Rightarrow> 'a list" where
  \<comment> \<open>the distinct elements in the order of their first occurrence\<close>
  "first_seen xs = rev (remdups (rev xs))"

definition spec_categorical_agg :: "string option list \<Rightarrow> int64 list \<Rightarrow> (string \<times> int64) list" where
  \<comment> \<open>Variant A as the specification words it, for comparison with line 49: group rows by
      distinct "Product" value, sum "Sales" within each group, sort groups by summed value
      descending, ties broken by first-encountered group (stable sort).\<close>
  "spec_categorical_agg ks vs =
     sort_key (\<lambda>(k, v). - sint v)
       (map (\<lambda>k. (k, sum_list (group_values ks vs k))) (first_seen (List.map_filter id ks)))"

definition lower :: "string \<Rightarrow> string" where
  \<comment> \<open>ASCII lower case, to say that two names differ in case only\<close>
  "lower s =
     map (\<lambda>c. if CHR ''A'' \<le> c \<and> c \<le> CHR ''Z'' then char_of (of_char c + (32::nat)) else c) s"

definition numeric :: "'f column \<Rightarrow> bool" where
  \<comment> \<open>an int64 or float64 column\<close>
  "numeric c = (case c of IntCol vs \<Rightarrow> True | FloatCol vs \<Rightarrow> True | _ \<Rightarrow> False)"

definition is_raw :: "'f cell \<Rightarrow> bool" where
  \<comment> \<open>a text or a number: a cell that \<^verbatim>\<open>pd.to_datetime\<close> has to convert\<close>
  "is_raw c = (case c of I64 n \<Rightarrow> True | F64 v \<Rightarrow> True | Str s \<Rightarrow> True | _ \<Rightarrow> False)"

section \<open>Example inputs\<close>

definition keep_order :: "nat list \<Rightarrow> nat \<Rightarrow> nat" where
  \<comment> \<open>the ranks of a sort that leaves equal values in the order of the Series\<close>
  "keep_order pat i = length pat - i"

definition example_parse :: "rat cell \<Rightarrow> conv" where
  \<comment> \<open>the conversion of \<^verbatim>\<open>pd.to_datetime\<close> on the texts of the examples\<close>
  "example_parse c =
     (case c of
        Str s \<Rightarrow>
          (case map_of [(''2023-01-05'', (2023, 1, 5)), (''2023-01-20'', (2023, 1, 20)),
                        (''2023-02-01'', (2023, 2, 1))] s of
             Some t \<Rightarrow> IsTime t
           | None \<Rightarrow> if s = ''NaT'' then IsNaT else Fails)
      | _ \<Rightarrow> Fails)"

definition example_lib :: "rat library" where
  \<comment> \<open>the floats of the examples are rationals whose float64 sums are exact\<close>
  "example_lib = \<lparr>convert = example_parse, float_sum = sum_list, ties = keep_order\<rparr>"

definition w0 :: "rat world" where
  "w0 = \<lparr>heap = [], out = [], written = []\<rparr>"

definition sales_csv :: Path where
  "sales_csv = Path ''/'' [''data'', ''sales.csv'']"

definition full_table :: "rat DataFrame" where
  "full_table =
     [(''Date'', StrCol [Some ''2023-01-05'', Some ''2023-01-20'', Some ''2023-02-01'']),
      (''Product'', StrCol [Some ''A'', Some ''B'', Some ''A'']),
      (''Sales'', IntCol [10, 5, 3])]"

definition example_disk :: "Path \<Rightarrow> (error + rat DataFrame) option" where
  \<comment> \<open>a file system with one readable file\<close>
  "example_disk = [sales_csv \<mapsto> Inr full_table]"

definition products_table :: "rat DataFrame" where
  \<comment> \<open>testable property 5 of the specification\<close>
  "products_table =
     [(''Product'', StrCol [Some ''A'', Some ''B'', Some ''A'']),
      (''Sales'', IntCol [10, 5, 3])]"

definition float_products_table :: "rat DataFrame" where
  "float_products_table =
     [(''Product'', StrCol [Some ''A'', Some ''B'', Some ''A'']),
      (''Sales'', FloatCol [Some (5 / 2), Some 4, Some (1 / 2)])]"

definition dates_table :: "rat DataFrame" where
  \<comment> \<open>testable property 6 of the specification\<close>
  "dates_table =
     [(''Date'', StrCol [Some ''2023-01-05'', Some ''2023-01-20'', Some ''2023-02-01'']),
      (''Sales'', IntCol [10, 5, 7])]"

definition float_dates_table :: "rat DataFrame" where
  "float_dates_table =
     [(''Date'', StrCol [Some ''2023-01-05'', Some ''2023-01-20'', Some ''2023-02-01'']),
      (''Sales'', FloatCol [Some (5 / 2), None, Some 7])]"

definition missing_product_table :: "rat DataFrame" where
  \<comment> \<open>the second row has an empty Product field\<close>
  "missing_product_table =
     [(''Product'', StrCol [Some ''A'', None]),
      (''Sales'', IntCol [10, 5])]"

definition missing_date_table :: "rat DataFrame" where
  \<comment> \<open>the second row has an empty Date field\<close>
  "missing_date_table =
     [(''Date'', StrCol [Some ''2023-01-05'', None]),
      (''Sales'', IntCol [10, 5])]"

definition no_date_table :: "rat DataFrame" where
  \<comment> \<open>every Date field is empty, which makes the column a float64 column of NaN\<close>
  "no_date_table =
     [(''Date'', FloatCol [None, None]),
      (''Sales'', IntCol [10, 5])]"

definition float_no_date_table :: "rat DataFrame" where
  "float_no_date_table =
     [(''Date'', FloatCol [None]),
      (''Sales'', FloatCol [Some (1 / 2)])]"

definition tie_table :: "rat DataFrame" where
  \<comment> \<open>two products with equal totals, B met first\<close>
  "tie_table =
     [(''Product'', StrCol [Some ''B'', Some ''A'']),
      (''Sales'', IntCol [5, 5])]"

definition tie_table_swapped :: "rat DataFrame" where
  \<comment> \<open>the same two rows, A met first\<close>
  "tie_table_swapped =
     [(''Product'', StrCol [Some ''A'', Some ''B'']),
      (''Sales'', IntCol [5, 5])]"

definition bad_date_table :: "rat DataFrame" where
  "bad_date_table =
     [(''Date'', StrCol [Some ''2023-01-05'', Some ''not a date'']),
      (''Sales'', IntCol [10, 5])]"

definition bad_date_disk :: "Path \<Rightarrow> (error + rat DataFrame) option" where
  "bad_date_disk = [sales_csv \<mapsto> Inr bad_date_table]"

definition lowercase_table :: "rat DataFrame" where
  "lowercase_table =
     [(''date'', StrCol [Some ''2023-01-05'']),
      (''product'', StrCol [Some ''A'']),
      (''sales'', IntCol [10])]"

definition no_sales_table :: "rat DataFrame" where
  "no_sales_table =
     [(''Date'', StrCol [Some ''2023-01-05'']),
      (''Product'', StrCol [Some ''A''])]"

section \<open>Grouping, summing and sorting\<close>

lemma sum_list_delta_distinct:
  fixes c :: "'a::comm_monoid_add"
  shows "distinct ds \<Longrightarrow> sum_list (map (\<lambda>k. if a = k then c else 0) ds) = (if a \<in> set ds then c else 0)"
  by (induction ds) auto

lemma sum_groups_distinct:
  fixes f :: "'b \<Rightarrow> 'a::comm_monoid_add"
  assumes "distinct ds"
  shows "sum_list (map (\<lambda>k. sum_list (map f (filter (\<lambda>x. g x = k) xs))) ds)
       = sum_list (map f (filter (\<lambda>x. g x \<in> set ds) xs))"
proof (induction xs)
  case Nil
  show ?case by simp
next
  case (Cons x xs)
  have "sum_list (map (\<lambda>k. sum_list (map f (filter (\<lambda>x. g x = k) (x # xs)))) ds)
      = sum_list (map (\<lambda>k. (if g x = k then f x else 0) + sum_list (map f (filter (\<lambda>x. g x = k) xs))) ds)"
    by (rule arg_cong [where f = sum_list]) simp
  also have "\<dots> = sum_list (map (\<lambda>k. if g x = k then f x else 0) ds)
                 + sum_list (map (\<lambda>k. sum_list (map f (filter (\<lambda>x. g x = k) xs))) ds)"
    by (simp add: sum_list_addf)
  also have "\<dots> = (if g x \<in> set ds then f x else 0) + sum_list (map f (filter (\<lambda>x. g x \<in> set ds) xs))"
    using assms Cons.IH by (simp add: sum_list_delta_distinct)
  finally show ?case by simp
qed

lemma set_group_keys: "set (group_keys ks) = {k. Some k \<in> set ks}"
  by (force simp: group_keys_def List.map_filter_def)

lemma distinct_group_keys: "distinct (group_keys ks)"
  by (simp add: group_keys_def)

lemma sorted_group_keys: "sorted (group_keys ks)"
  by (simp add: group_keys_def)

lemma group_keys_Nil: "group_keys ks = [] \<longleftrightarrow> (\<forall>k. Some k \<notin> set ks)"
proof -
  have "group_keys ks = [] \<longleftrightarrow> set (group_keys ks) = {}"
    by simp
  then show ?thesis
    by (simp only: set_group_keys) blast
qed

lemma groupby_agg_keys: "map fst (groupby_agg f ks vs) = group_keys ks"
  by (simp add: groupby_agg_def comp_def)

lemma groupby_agg_Nil: "groupby_agg f ks vs = [] \<longleftrightarrow> (\<forall>k. Some k \<notin> set ks)"
  by (simp add: groupby_agg_def group_keys_Nil)

lemma groupby_agg_strict: "sorted_wrt (<) (map fst (groupby_agg f ks vs))"
  by (simp add: groupby_agg_keys strict_sorted_iff sorted_group_keys distinct_group_keys)

lemma groupby_agg_entry:
  "(k, a) \<in> set (groupby_agg f ks vs) \<longleftrightarrow> Some k \<in> set ks \<and> a = f (group_values ks vs k)"
  by (auto simp: groupby_agg_def set_group_keys)

lemma groupby_agg_sum_total:
  fixes vs :: "('v::comm_monoid_add) list"
  shows "sum_list (map snd (groupby_agg sum_list ks vs))
     = sum_list (map snd (filter (\<lambda>(k, v). k \<noteq> None) (zip ks vs)))"
proof -
  let ?f = "snd :: 'a option \<times> 'v \<Rightarrow> 'v"
  have "sum_list (map snd (groupby_agg sum_list ks vs))
      = sum_list (map (\<lambda>k. sum_list (map ?f (filter (\<lambda>x. fst x = Some k) (zip ks vs)))) (group_keys ks))"
    by (simp add: groupby_agg_def group_values_def comp_def case_prod_unfold)
  also have "\<dots> = sum_list (map (\<lambda>k. sum_list (map ?f (filter (\<lambda>x. the (fst x) = k) (filter (\<lambda>x. fst x \<noteq> None) (zip ks vs))))) (group_keys ks))"
    by (rule arg_cong [where f = sum_list], rule map_cong, simp, rule arg_cong [where f = sum_list])
       (auto intro!: arg_cong [where f = "map ?f"] filter_cong)
  also have "\<dots> = sum_list (map ?f (filter (\<lambda>x. the (fst x) \<in> set (group_keys ks)) (filter (\<lambda>x. fst x \<noteq> None) (zip ks vs))))"
    by (rule sum_groups_distinct) (rule distinct_group_keys)
  also have "\<dots> = sum_list (map ?f (filter (\<lambda>x. fst x \<noteq> None) (zip ks vs)))"
    by (rule arg_cong [where f = sum_list], rule arg_cong [where f = "map ?f"])
       (auto simp: set_group_keys intro!: filter_cong dest: set_zip_leftD)
  finally show ?thesis
    by (simp add: comp_def case_prod_unfold)
qed

lemma map_snd_enumerate: "map snd (enumerate n xs) = xs"
  by (induction xs arbitrary: n) simp_all

lemma sort_desc_mset: "mset (sort_desc tb key xs) = mset xs"
proof -
  have "mset (map snd (sort_key g (enumerate 0 xs))) = mset (map snd (enumerate 0 xs))" for g :: "nat \<times> 'a \<times> 'b \<Rightarrow> 'c \<times> nat"
    by (simp only: mset_map mset_sort)
  then show ?thesis
    by (simp add: sort_desc_def Let_def map_snd_enumerate)
qed

lemma sort_desc_sorted:
  fixes xs :: "('k \<times> 'v) list" and key :: "'v \<Rightarrow> 'o::linorder"
  shows "sorted_wrt (\<lambda>x y. key y \<le> key x) (map snd (sort_desc tb key xs))"
proof -
  define g where "g = (\<lambda>(i :: nat, (k :: 'k, v)). (key v, tb (order_pattern (map (\<lambda>(k, v). key v) xs)) i))"
  define ys where "ys = sort_key g (enumerate 0 xs)"
  have "sorted (map g ys)"
    by (simp add: ys_def)
  then have "sorted_wrt (\<lambda>p q. g p \<le> g q) ys"
    by (simp add: sorted_map)
  then have "sorted_wrt (\<lambda>p q. key (snd (snd p)) \<le> key (snd (snd q))) ys"
    by (rule sorted_wrt_mono_rel [rotated]) (auto simp: g_def less_eq_prod_def split: prod.splits)
  then have "sorted_wrt (\<lambda>x y. key y \<le> key x) (map snd (map snd (rev ys)))"
    by (simp add: sorted_wrt_map sorted_wrt_rev)
  then show ?thesis
    by (simp add: sort_desc_def Let_def ys_def g_def rev_map)
qed

section \<open>Columns and frames\<close>

lemma get_col_setitem: "get_col (setitem d n c) m = (if m = n then Some c else get_col d m)"
  by (induction d n c rule: setitem.induct) (auto simp: get_col_def)

lemma get_col_in_columns: "get_col d n = Some c \<Longrightarrow> n \<in> set (columns d)"
  by (auto simp: get_col_def columns_def dest: map_of_SomeD intro: rev_image_eqI)

lemma get_col_None_iff: "get_col d n = None \<longleftrightarrow> n \<notin> set (columns d)"
  by (simp add: get_col_def columns_def map_of_eq_None_iff)

lemma filter_zip_map_fst:
  "map snd (filter fst (zip (map P ks) vs)) = map snd (filter (\<lambda>(k, v). P k) (zip ks vs))"
proof (induction ks arbitrary: vs)
  case Nil
  show ?case by simp
next
  case (Cons k ks)
  show ?case by (cases vs) (simp_all add: Cons.IH)
qed

lemma filter_zip_map_key:
  "map snd (filter (\<lambda>(k, v). Q k) (zip (map g ks) vs))
     = map snd (filter (\<lambda>(k, v). Q (g k)) (zip ks vs))"
proof (induction ks arbitrary: vs)
  case Nil
  show ?case by simp
next
  case (Cons k ks)
  show ?case by (cases vs) (simp_all add: Cons.IH)
qed

lemma notna_cols:
  "notna (IntCol a) = map (\<lambda>k. True) a"
  "notna (FloatCol b) = map (\<lambda>k. k \<noteq> None) b"
  "notna (StrCol c) = map (\<lambda>k. k \<noteq> None) c"
  "notna (DateCol d) = map (\<lambda>k. k \<noteq> None) d"
  "notna (PeriodCol e) = map (\<lambda>k. k \<noteq> None) e"
  by (auto simp: notna_def split: option.splits)

lemma no_key_iff: "(\<forall>k. Some k \<notin> set xs) \<longleftrightarrow> True \<notin> set (map (\<lambda>k. k \<noteq> None) xs)"
proof (induction xs)
  case Nil
  show ?case by simp
next
  case (Cons x xs)
  then show ?case by (cases x) auto
qed

lemma no_int_key_iff:
  "(\<forall>k. Some k \<notin> set (map (\<lambda>k. Some (sint k)) xs)) \<longleftrightarrow> True \<notin> set (map (\<lambda>k. True) xs)"
  by (cases xs) auto

lemma groupby_col_keys_Nil:
  "groupby_col f kc vs = [] \<longleftrightarrow> True \<notin> set (notna kc)"
proof (cases kc)
  case (IntCol ks)
  then show ?thesis
    by (simp only: groupby_col_def column.case map_is_Nil_conv groupby_agg_Nil notna_cols
          no_int_key_iff)
next
  case (FloatCol ks)
  then show ?thesis
    by (simp only: groupby_col_def column.case map_is_Nil_conv groupby_agg_Nil notna_cols no_key_iff)
next
  case (StrCol ks)
  then show ?thesis
    by (simp only: groupby_col_def column.case map_is_Nil_conv groupby_agg_Nil notna_cols no_key_iff)
next
  case (DateCol ks)
  then show ?thesis
    by (simp only: groupby_col_def column.case map_is_Nil_conv groupby_agg_Nil notna_cols no_key_iff)
next
  case (PeriodCol ks)
  then show ?thesis
    by (simp only: groupby_col_def column.case map_is_Nil_conv groupby_agg_Nil notna_cols no_key_iff)
qed

lemma groupby_col_sum_total:
  fixes vs :: "('v::comm_monoid_add) list"
  shows "sum_list (map snd (groupby_col sum_list kc vs)) = sum_list (rows_with kc vs)"
proof (cases kc)
  case (IntCol ks)
  have "map snd (filter (\<lambda>(k, v). k \<noteq> None) (zip (map (\<lambda>k. Some (sint k)) ks) vs))
          = map snd (filter (\<lambda>(k, v). True) (zip ks vs))"
    using filter_zip_map_key [of "\<lambda>k. k \<noteq> None" "\<lambda>k. Some (sint k)" ks vs] by simp
  also have "\<dots> = rows_with kc vs"
    by (simp add: IntCol rows_with_def notna_cols filter_zip_map_fst)
  finally show ?thesis
    by (simp add: IntCol groupby_col_def comp_def case_prod_unfold
          groupby_agg_sum_total [unfolded case_prod_unfold comp_def, simplified])
qed (simp_all add: groupby_col_def rows_with_def notna_cols filter_zip_map_fst
        comp_def case_prod_unfold groupby_agg_sum_total [unfolded case_prod_unfold comp_def, simplified])
section \<open>The heap of frames\<close>

lemma frame_out_upd [simp]: "frame (w\<lparr>out := x\<rparr>) i = frame w i"
  by (simp add: frame_def)

lemma frame_written_upd [simp]: "frame (w\<lparr>written := x\<rparr>) i = frame w i"
  by (simp add: frame_def)

lemma df_copy_eq: "df_copy r w = (length (heap w), w\<lparr>heap := heap w @ [frame w r]\<rparr>)"
  by (simp add: df_copy_def)

lemma frame_copied [simp]: "frame (w\<lparr>heap := heap w @ [d]\<rparr>) (length (heap w)) = d"
  by (simp add: frame_def)

lemma frame_df_setitem_same:
  "r < length (heap w) \<Longrightarrow> frame (df_setitem r n c w) r = setitem (frame w r) n c"
  by (simp add: frame_def df_setitem_def)

lemma df_setitem_fields [simp]:
  "out (df_setitem r n c w) = out w"
  "written (df_setitem r n c w) = written w"
  "length (heap (df_setitem r n c w)) = length (heap w)"
  by (simp_all add: df_setitem_def)

lemma df_setitem_prefix:
  "k \<le> r \<Longrightarrow> take k (heap (df_setitem r n c w)) = take k (heap w)"
  by (simp add: df_setitem_def)

lemma basic_eda_frame:
  "heap (snd (basic_eda r w)) = heap w \<and> written (snd (basic_eda r w)) = written w"
  by (simp add: basic_eda_def Let_def)

lemma sales_by_product_frame:
  "heap (snd (sales_by_product lib r w)) = heap w \<and> written (snd (sales_by_product lib r w)) = written w"
  by (simp add: sales_by_product_def Let_def split: sum.split option.split)

lemma monthly_sales_trend_unfold:
  assumes "{''Date'', ''Sales''} \<subseteq> set (columns (frame w r))"
  shows "monthly_sales_trend lib r w =
     (case get_col (frame w r) ''Date'' of
        None \<Rightarrow> (Inl (Raised KeyError In_getitem), w\<lparr>heap := heap w @ [frame w r]\<rparr>)
      | Some c \<Rightarrow>
          (case to_datetime lib c of
             Inl e \<Rightarrow> (Inl e, w\<lparr>heap := heap w @ [frame w r]\<rparr>)
           | Inr dates \<Rightarrow>
               (case to_period_M dates of
                  Inl e \<Rightarrow>
                    (Inl e, df_setitem (length (heap w)) ''Date'' dates
                              (w\<lparr>heap := heap w @ [frame w r]\<rparr>))
                | Inr months \<Rightarrow>
                    (case groupby_named_sum lib
                            (setitem (setitem (frame w r) ''Date'' dates) ''Month'' months)
                            ''Month'' ''Sales'' of
                       Inl e \<Rightarrow>
                         (Inl e, df_setitem (length (heap w)) ''Month'' months
                            (df_setitem (length (heap w)) ''Date'' dates
                              (w\<lparr>heap := heap w @ [frame w r]\<rparr>)))
                     | Inr trend \<Rightarrow>
                         (case plot_error Line trend of
                            Some e \<Rightarrow>
                              (Inl e, df_setitem (length (heap w)) ''Month'' months
                                 (df_setitem (length (heap w)) ''Date'' dates
                                   (w\<lparr>heap := heap w @ [frame w r]\<rparr>)))
                          | None \<Rightarrow>
                              (Inr (),
                               (df_setitem (length (heap w)) ''Month'' months
                                 (df_setitem (length (heap w)) ''Date'' dates
                                   (w\<lparr>heap := heap w @ [frame w r]\<rparr>)))
                               \<lparr>out := out w @
                                  [Plot Line ''Monthly Sales Trend'' ''Total Sales''
                                     trend]\<rparr>))))))"
proof -
  let ?k = "length (heap w)"
  let ?w1 = "w\<lparr>heap := heap w @ [frame w r]\<rparr>"
  have copy: "df_copy r w = (?k, ?w1)"
    by (simp add: df_copy_def)
  have f1: "frame ?w1 ?k = frame w r"
    by simp
  have live: "?k < length (heap ?w1)"
    by simp
  have f2: "frame (df_setitem ?k n c ?w1) ?k = setitem (frame w r) n c" for n c
    using live by (simp add: frame_df_setitem_same)
  have live2: "?k < length (heap (df_setitem ?k n c ?w1))" for n c
    by simp
  have f3: "frame (df_setitem ?k m d (df_setitem ?k n c ?w1)) ?k
              = setitem (setitem (frame w r) n c) m d" for n c m d
    using live2 [of n c] by (simp add: frame_df_setitem_same f2)
  have o3: "out (df_setitem ?k m d (df_setitem ?k n c ?w1)) = out w" for n c m d
    by simp
  have g: "get_col (setitem (frame w r) ''Date'' c) ''Date'' = Some c" for c
    by (simp add: get_col_setitem)
  show ?thesis
    unfolding monthly_sales_trend_def copy using assms
    by (simp only: if_True Let_def prod.case f1 f2 f3 g o3 option.case)
qed

lemma monthly_sales_trend_skip:
  "\<not> {''Date'', ''Sales''} \<subseteq> set (columns (frame w r)) \<Longrightarrow>
     monthly_sales_trend lib r w = (Inr (), w)"
  unfolding monthly_sales_trend_def by (simp only: if_False)

lemma monthly_sales_trend_frame:
  "take (length (heap w)) (heap (snd (monthly_sales_trend lib r w))) = heap w
   \<and> written (snd (monthly_sales_trend lib r w)) = written w"
proof (cases "{''Date'', ''Sales''} \<subseteq> set (columns (frame w r))")
  case False
  then show ?thesis by (simp only: monthly_sales_trend_skip snd_conv take_all order_refl simp_thms)
next
  case True
  have upd: "take (length (heap w)) (heap (df_setitem (length (heap w)) n c v))
               = take (length (heap w)) (heap v)" for n c v
    by (simp add: df_setitem_prefix)
  show ?thesis
    unfolding monthly_sales_trend_unfold [OF True]
    by (simp add: upd split: option.split sum.split)
qed

lemma frame_of_prefix:
  assumes a: "take (length (heap w)) (heap w') = heap w" and b: "r < length (heap w)"
  shows "frame w' r = frame w r"
proof -
  have "length (take (length (heap w)) (heap w')) = length (heap w)"
    by (simp only: a)
  then have len: "length (heap w) \<le> length (heap w')"
    by simp
  have "take (length (heap w)) (heap w') ! r = heap w' ! r"
    using b by (rule nth_take)
  then have "heap w ! r = heap w' ! r"
    by (simp only: a)
  moreover have "r < length (heap w')"
    using b len by linarith
  ultimately show ?thesis
    using b by (simp only: frame_def if_True)
qed

section \<open>A run of main that reaches its end\<close>

lemma load_csv_Inr:
  assumes "load_csv disk p w = (Inr k, w1)"
  shows "\<exists>T. disk p = Some (Inr T) \<and> k = length (heap w)
           \<and> w1 = w\<lparr>heap := heap w @ [T], out := out w @ [PrintLoaded (len_df T) (name p)]\<rparr>"
  using assms by (auto simp: load_csv_def split: option.splits sum.splits)

lemma main_Inr:
  assumes m: "main lib disk a picked w = (Inr u, w')"
  shows "\<exists>p T outp.
           (case a of Some q \<Rightarrow> Inr q | None \<Rightarrow> choose_file_gui picked) = Inr p
         \<and> disk p = Some (Inr T)
         \<and> with_stem p (stem p @ ''_cleaned'') = Inr outp
         \<and> written w' = written w @ [(outp, to_csv T False)]
         \<and> frame w' (length (heap w)) = T"
proof -
  define s where "s = (case a of Some q \<Rightarrow> Inr q | None \<Rightarrow> choose_file_gui picked)"
  have m1: "(case s of Inl e \<Rightarrow> (Inl e, w) | Inr csv_path \<Rightarrow>
          (case load_csv disk csv_path w of
             (Inl e, w1) \<Rightarrow> (Inl e, w1)
           | (Inr df, w1) \<Rightarrow>
               (case basic_eda df w1 of
                  (Inl e, w2) \<Rightarrow> (Inl e, w2)
                | (Inr u, w2) \<Rightarrow>
                    (case sales_by_product lib df w2 of
                       (Inl e, w3) \<Rightarrow> (Inl e, w3)
                     | (Inr u, w3) \<Rightarrow>
                         (case monthly_sales_trend lib df w3 of
                            (Inl e, w4) \<Rightarrow> (Inl e, w4)
                          | (Inr u, w4) \<Rightarrow>
                              (case with_stem csv_path (stem csv_path @ ''_cleaned'') of
                                 Inl e \<Rightarrow> (Inl e, w4)
                               | Inr out_path \<Rightarrow>
                                   (let w5 = w4\<lparr>written := written w4 @
                                               [(out_path, to_csv (frame w4 df) False)]\<rparr>
                                    in (Inr (),
                                        w5\<lparr>out := out w5 @ [PrintWritten out_path]\<rparr>)))))))) = (Inr u, w')"
    using m unfolding main_def s_def .
  obtain p where sp: "s = Inr p"
    using m1 by (cases s) simp_all
  obtain r1 w1 where l: "load_csv disk p w = (r1, w1)"
    by (cases "load_csv disk p w")
  obtain k where r1: "r1 = Inr k"
    using m1 by (cases r1) (simp_all add: sp l)
  obtain r2 w2 where e: "basic_eda k w1 = (r2, w2)"
    by (cases "basic_eda k w1")
  obtain u2 where r2: "r2 = Inr u2"
    using m1 by (cases r2) (simp_all add: sp l r1 e)
  obtain r3 w3 where b: "sales_by_product lib k w2 = (r3, w3)"
    by (cases "sales_by_product lib k w2")
  obtain u3 where r3: "r3 = Inr u3"
    using m1 by (cases r3) (simp_all add: sp l r1 e r2 b)
  obtain r4 w4 where t: "monthly_sales_trend lib k w3 = (r4, w4)"
    by (cases "monthly_sales_trend lib k w3")
  obtain u4 where r4: "r4 = Inr u4"
    using m1 by (cases r4) (simp_all add: sp l r1 e r2 b r3 t)
  obtain outp where o: "with_stem p (stem p @ ''_cleaned'') = Inr outp"
    using m1 by (cases "with_stem p (stem p @ ''_cleaned'')") (simp_all add: sp l r1 e r2 b r3 t r4)
  have w': "w' = w4\<lparr>written := written w4 @ [(outp, to_csv (frame w4 k) False)],
                     out := out w4 @ [PrintWritten outp]\<rparr>"
    using m1 by (simp add: sp l r1 e r2 b r3 t r4 o Let_def)
  obtain T where d: "disk p = Some (Inr T)" and k: "k = length (heap w)"
    and w1: "w1 = w\<lparr>heap := heap w @ [T], out := out w @ [PrintLoaded (len_df T) (name p)]\<rparr>"
    using load_csv_Inr [OF l [unfolded r1]] by blast
  have h2: "heap w2 = heap w1" "written w2 = written w1"
    using basic_eda_frame [of k w1] unfolding e by simp_all
  have h3: "heap w3 = heap w2" "written w3 = written w2"
    using sales_by_product_frame [of lib k w2] unfolding b by simp_all
  have h4: "take (length (heap w3)) (heap w4) = heap w3" "written w4 = written w3"
    using monthly_sales_trend_frame [of w3 lib k] unfolding t by simp_all
  have live: "k < length (heap w3)"
    by (simp add: h3 h2 w1 k)
  have "frame w4 k = frame w3 k"
    using h4(1) live by (rule frame_of_prefix)
  also have "\<dots> = T"
    using live by (simp add: frame_def h3 h2 w1 k)
  finally have f: "frame w4 k = T" .
  have wr: "written w' = written w @ [(outp, to_csv T False)]"
    by (simp add: w' f h4 h3 h2 w1)
  have "frame w' (length (heap w)) = T"
    using f by (simp add: w' k)
  with sp d o wr show ?thesis
    unfolding s_def by blast
qed

section \<open>The categorical aggregation\<close>

lemma sales_by_product_agg_int:
  assumes "get_col d ''Product'' = Some pc" and "get_col d ''Sales'' = Some (IntCol vs)"
  shows "sales_by_product_agg lib d
           = Inr (IntSeries (sort_desc (ties lib) sint (groupby_col sum_list pc vs)))"
  using assms by (simp add: sales_by_product_agg_def groupby_named_sum_def sort_values_desc_def)

lemma sales_by_product_agg_float:
  assumes "get_col d ''Product'' = Some pc" and "get_col d ''Sales'' = Some (FloatCol vs)"
  shows "sales_by_product_agg lib d
           = Inr (FloatSeries (sort_desc (ties lib) (\<lambda>v. v)
                    (groupby_col (\<lambda>g. float_sum lib (List.map_filter id g)) pc vs)))"
  using assms by (simp add: sales_by_product_agg_def groupby_named_sum_def sort_values_desc_def)

lemma sort_desc_total:
  fixes xs :: "('k \<times> 'v::comm_monoid_add) list"
  shows "sum_list (map snd (sort_desc tb key xs)) = sum_list (map snd xs)"
proof -
  have "mset (map snd (sort_desc tb key xs)) = mset (map snd xs)"
    by (simp add: sort_desc_mset)
  then show ?thesis by (metis sum_mset_sum_list)
qed

lemma rows_with_all:
  assumes "list_all (\<lambda>b. b) (notna kc)" and "col_len kc = length vs"
  shows "rows_with kc vs = vs"
proof -
  have len: "length (notna kc) = length vs"
    using assms(2) by (simp add: notna_def col_len_def)
  have "filter fst (zip (notna kc) vs) = zip (notna kc) vs"
    using assms(1) by (auto simp: filter_id_conv list_all_iff dest: set_zip_leftD)
  then show ?thesis
    using len by (simp add: rows_with_def)
qed

text \<open>
  Claim C2, as the code has it.  For a table with a "Product" column and an int64 "Sales"
  column, the per-product sums of line 49 add up, in the wrapping int64 arithmetic of the
  sums themselves, to the sum of "Sales" over the rows whose "Product" is not missing: the
  grouping drops the rows with a missing "Product", and their "Sales" are not counted.
  When no "Product" is missing, that is the sum of the whole column.
\<close>

theorem product_totals_conserve_present_rows:
  assumes "get_col d ''Product'' = Some pc" and "get_col d ''Sales'' = Some (IntCol vs)"
  shows "\<exists>agg. sales_by_product_agg lib d = Inr (IntSeries agg)
           \<and> sum_list (map snd agg) = sum_list (rows_with pc vs)
           \<and> (list_all (\<lambda>b. b) (notna pc) \<and> col_len pc = length vs
                \<longrightarrow> series_total (IntSeries agg) = column_total d ''Sales'')"
proof -
  let ?agg = "sort_desc (ties lib) sint (groupby_col sum_list pc vs)"
  have t: "sum_list (map snd ?agg) = sum_list (rows_with pc vs)"
    by (simp add: sort_desc_total groupby_col_sum_total)
  have "series_total (IntSeries ?agg) = column_total d ''Sales''"
    if "list_all (\<lambda>b. b) (notna pc) \<and> col_len pc = length vs"
    using that t by (simp add: series_total_def column_total_def assms(2) rows_with_all)
  with t sales_by_product_agg_int [OF assms] show ?thesis
    by blast
qed

theorem product_totals_conserve_present_rows_witness:
  "get_col missing_product_table ''Product'' = Some (StrCol [Some ''A'', None])
   \<and> get_col missing_product_table ''Sales'' = Some (IntCol [10, 5])
   \<and> sales_by_product_agg example_lib missing_product_table = Inr (IntSeries [(LStr ''A'', 10)])
   \<and> rows_with (StrCol [Some ''A'', None] :: rat column) [10, 5 :: int64] = [10]
   \<and> get_col products_table ''Product'' = Some (StrCol [Some ''A'', Some ''B'', Some ''A''])
   \<and> get_col products_table ''Sales'' = Some (IntCol [10, 5, 3])
   \<and> list_all (\<lambda>b. b) (notna (StrCol [Some ''A'', Some ''B'', Some ''A''] :: rat column))
   \<and> col_len (StrCol [Some ''A'', Some ''B'', Some ''A''] :: rat column) = length [10, 5, 3 :: int64]
   \<and> sales_by_product_agg example_lib products_table
       = Inr (IntSeries [(LStr ''A'', 13), (LStr ''B'', 5)])
   \<and> series_total (IntSeries [(LStr ''A'', 13), (LStr ''B'', 5)] :: rat series)
       = column_total products_table ''Sales''"
proof -
  have a: "get_col missing_product_table ''Product'' = Some (StrCol [Some ''A'', None])"
    by (simp add: missing_product_table_def get_col_def)
  have b: "get_col missing_product_table ''Sales'' = Some (IntCol [10, 5])"
    by (simp add: missing_product_table_def get_col_def)
  have c: "sales_by_product_agg example_lib missing_product_table = Inr (IntSeries [(LStr ''A'', 10)])"
    by code_simp
  have d: "rows_with (StrCol [Some ''A'', None] :: rat column) [10, 5 :: int64] = [10]"
    by (simp add: rows_with_def notna_def)
  have a': "get_col products_table ''Product'' = Some (StrCol [Some ''A'', Some ''B'', Some ''A''])"
    by (simp add: products_table_def get_col_def)
  have b': "get_col products_table ''Sales'' = Some (IntCol [10, 5, 3])"
    by (simp add: products_table_def get_col_def)
  have h: "list_all (\<lambda>b. b) (notna (StrCol [Some ''A'', Some ''B'', Some ''A''] :: rat column))
           \<and> col_len (StrCol [Some ''A'', Some ''B'', Some ''A''] :: rat column) = length [10, 5, 3 :: int64]"
    by (simp add: notna_def col_len_def)
  have c': "sales_by_product_agg example_lib products_table
       = Inr (IntSeries [(LStr ''A'', 13), (LStr ''B'', 5)])"
    by code_simp
  from product_totals_conserve_present_rows [OF a b, where lib = example_lib]
       product_totals_conserve_present_rows [OF a' b', where lib = example_lib] h c'
  have "series_total (IntSeries [(LStr ''A'', 13), (LStr ''B'', 5)] :: rat series)
       = column_total products_table ''Sales''"
    by auto
  with a b c d a' b' h c' show ?thesis
    by (simp only: simp_thms)
qed

text \<open>
  Claim C2 as stated, with the whole-table total, fails on a table whose second row has
  no product: the per-product sums add up to 10, the "Sales" column to 15.
\<close>

theorem product_totals_counterexample:
  "sales_by_product_agg example_lib missing_product_table = Inr (IntSeries [(LStr ''A'', 10)])
   \<and> series_total (IntSeries [(LStr ''A'', 10)] :: rat series) = Some 10
   \<and> column_total missing_product_table ''Sales'' = Some 15
   \<and> series_total (IntSeries [(LStr ''A'', 10)] :: rat series)
       \<noteq> column_total missing_product_table ''Sales''"
  by code_simp

text \<open>
  Claim C4, as the code has it.  For a table with "Product" and a numeric "Sales" column,
  int64 or float64, the result of line 49 holds the groups of the grouping, reordered so
  that the summed values are descending.  This holds whatever the sort does with equal
  sums, and nothing is said about their order.
\<close>

theorem product_agg_sorted_descending:
  assumes "get_col d ''Product'' = Some pc"
  shows "(\<forall>vs. get_col d ''Sales'' = Some (IntCol vs) \<longrightarrow>
            (\<exists>agg. sales_by_product_agg lib d = Inr (IntSeries agg)
               \<and> sorted_wrt (\<lambda>x y. sint x \<ge> sint y) (map snd agg)
               \<and> mset agg = mset (groupby_col sum_list pc vs)))
       \<and> (\<forall>vs. get_col d ''Sales'' = Some (FloatCol vs) \<longrightarrow>
            (\<exists>agg. sales_by_product_agg lib d = Inr (FloatSeries agg)
               \<and> sorted_wrt (\<lambda>x y. x \<ge> y) (map snd agg)
               \<and> mset agg = mset (groupby_col (\<lambda>g. float_sum lib (List.map_filter id g)) pc vs)))"
proof (intro conjI allI impI)
  fix vs
  assume s: "get_col d ''Sales'' = Some (IntCol vs)"
  show "\<exists>agg. sales_by_product_agg lib d = Inr (IntSeries agg)
               \<and> sorted_wrt (\<lambda>x y. sint x \<ge> sint y) (map snd agg)
               \<and> mset agg = mset (groupby_col sum_list pc vs)"
    using sales_by_product_agg_int [OF assms s, of lib]
          sort_desc_sorted [of sint "ties lib" "groupby_col sum_list pc vs"]
    by (simp add: sort_desc_mset)
next
  fix vs
  assume s: "get_col d ''Sales'' = Some (FloatCol vs)"
  show "\<exists>agg. sales_by_product_agg lib d = Inr (FloatSeries agg)
               \<and> sorted_wrt (\<lambda>x y. x \<ge> y) (map snd agg)
               \<and> mset agg = mset (groupby_col (\<lambda>g. float_sum lib (List.map_filter id g)) pc vs)"
    using sales_by_product_agg_float [OF assms s, of lib]
          sort_desc_sorted [of "\<lambda>v. v" "ties lib"
             "groupby_col (\<lambda>g. float_sum lib (List.map_filter id g)) pc vs"]
    by (simp add: sort_desc_mset)
qed

theorem product_agg_sorted_descending_witness:
  "get_col products_table ''Product'' = Some (StrCol [Some ''A'', Some ''B'', Some ''A''])
   \<and> get_col products_table ''Sales'' = Some (IntCol [10, 5, 3])
   \<and> sales_by_product_agg example_lib products_table
       = Inr (IntSeries [(LStr ''A'', 13), (LStr ''B'', 5)])
   \<and> sorted_wrt (\<lambda>x y. sint x \<ge> sint y) (map snd [(LStr ''A'' :: rat label, 13 :: int64), (LStr ''B'', 5)])
   \<and> get_col float_products_table ''Product'' = Some (StrCol [Some ''A'', Some ''B'', Some ''A''])
   \<and> get_col float_products_table ''Sales'' = Some (FloatCol [Some (5 / 2), Some 4, Some (1 / 2)])
   \<and> sales_by_product_agg example_lib float_products_table
       = Inr (FloatSeries [(LStr ''B'', 4), (LStr ''A'', 3)])
   \<and> sorted_wrt (\<lambda>x y. x \<ge> y) (map snd [(LStr ''B'' :: rat label, 4 :: rat), (LStr ''A'', 3)])"
proof -
  have a: "get_col products_table ''Product'' = Some (StrCol [Some ''A'', Some ''B'', Some ''A''])"
    by (simp add: products_table_def get_col_def)
  have b: "get_col products_table ''Sales'' = Some (IntCol [10, 5, 3])"
    by (simp add: products_table_def get_col_def)
  have c: "sales_by_product_agg example_lib products_table
       = Inr (IntSeries [(LStr ''A'', 13), (LStr ''B'', 5)])"
    by code_simp
  have a': "get_col float_products_table ''Product'' = Some (StrCol [Some ''A'', Some ''B'', Some ''A''])"
    by (simp add: float_products_table_def get_col_def)
  have b': "get_col float_products_table ''Sales'' = Some (FloatCol [Some (5 / 2), Some 4, Some (1 / 2)])"
    by (simp add: float_products_table_def get_col_def)
  have c': "sales_by_product_agg example_lib float_products_table
       = Inr (FloatSeries [(LStr ''B'', 4), (LStr ''A'', 3)])"
    by code_simp
  from product_agg_sorted_descending [OF a, where lib = example_lib] b c
  have s: "sorted_wrt (\<lambda>x y. sint x \<ge> sint y) (map snd [(LStr ''A'' :: rat label, 13 :: int64), (LStr ''B'', 5)])"
    by auto
  from product_agg_sorted_descending [OF a', where lib = example_lib] b' c'
  have s': "sorted_wrt (\<lambda>x y. x \<ge> y) (map snd [(LStr ''B'' :: rat label, 4 :: rat), (LStr ''A'', 3)])"
    by auto
  from a b c s a' b' c' s' show ?thesis
    by (simp only: simp_thms)
qed

lemma tie_tables_same_result:
  "sales_by_product_agg lib tie_table = sales_by_product_agg lib tie_table_swapped"
proof -
  have "groupby_col sum_list (StrCol [Some ''B'', Some ''A''] :: rat column) [5, 5 :: int64]
          = groupby_col sum_list (StrCol [Some ''A'', Some ''B''] :: rat column) [5, 5]"
    by (simp add: groupby_col_def groupby_agg_def group_keys_def group_values_def
          List.map_filter_def)
  then show ?thesis
    by (simp add: sales_by_product_agg_def groupby_named_sum_def get_col_def
          tie_table_def tie_table_swapped_def)
qed

text \<open>
  Claim C4 as stated, with ties broken by first-encountered group, fails on two products of
  equal total where B comes first in the table: the grouping orders the groups by key, and
  the sort leaves the two equal sums as they are, so the code yields A before B, where the
  specified algorithm yields B before A.  The table with the two rows swapped gives the
  same grouped series and so the same result of line 49, whatever the sort does with
  equal values, while the specified results differ.
\<close>

theorem tie_order_counterexample:
  "sales_by_product_agg example_lib tie_table = Inr (IntSeries [(LStr ''A'', 5), (LStr ''B'', 5)])
   \<and> spec_categorical_agg [Some ''B'', Some ''A''] [5, 5] = [(''B'', 5), (''A'', 5)]
   \<and> sales_by_product_agg example_lib tie_table_swapped
       = Inr (IntSeries [(LStr ''A'', 5), (LStr ''B'', 5)])
   \<and> spec_categorical_agg [Some ''A'', Some ''B''] [5, 5] = [(''A'', 5), (''B'', 5)]"
  by code_simp

section \<open>Skipped aggregations, missing files and the frame of the aggregations\<close>

lemma sales_by_product_skip:
  "\<not> {''Product'', ''Sales''} \<subseteq> set (columns (frame w r)) \<Longrightarrow>
     sales_by_product lib r w = (Inr (), w)"
  unfolding sales_by_product_def by (simp only: if_False)

text \<open>
  Claim C5.  On a table that lacks "Product" or lacks "Sales", \<open>sales_by_product\<close> returns
  normally and leaves the state as it was: nothing printed, no chart requested.  Likewise
  \<open>monthly_sales_trend\<close> on a table that lacks "Date" or lacks "Sales".
\<close>

theorem missing_columns_are_skipped:
  "(''Product'' \<notin> set (columns (frame w r)) \<or> ''Sales'' \<notin> set (columns (frame w r))
      \<longrightarrow> sales_by_product lib r w = (Inr (), w))
   \<and> (''Date'' \<notin> set (columns (frame w r)) \<or> ''Sales'' \<notin> set (columns (frame w r))
      \<longrightarrow> monthly_sales_trend lib r w = (Inr (), w))"
proof (intro conjI impI)
  assume "''Product'' \<notin> set (columns (frame w r)) \<or> ''Sales'' \<notin> set (columns (frame w r))"
  then have "\<not> {''Product'', ''Sales''} \<subseteq> set (columns (frame w r))" by blast
  then show "sales_by_product lib r w = (Inr (), w)" by (rule sales_by_product_skip)
next
  assume "''Date'' \<notin> set (columns (frame w r)) \<or> ''Sales'' \<notin> set (columns (frame w r))"
  then have "\<not> {''Date'', ''Sales''} \<subseteq> set (columns (frame w r))" by blast
  then show "monthly_sales_trend lib r w = (Inr (), w)" by (rule monthly_sales_trend_skip)
qed

theorem missing_columns_are_skipped_witness:
  "''Sales'' \<notin> set (columns (frame (w0\<lparr>heap := [no_sales_table]\<rparr>) 0))
   \<and> sales_by_product example_lib 0 (w0\<lparr>heap := [no_sales_table]\<rparr>) = (Inr (), w0\<lparr>heap := [no_sales_table]\<rparr>)
   \<and> monthly_sales_trend example_lib 0 (w0\<lparr>heap := [no_sales_table]\<rparr>)
        = (Inr (), w0\<lparr>heap := [no_sales_table]\<rparr>)"
proof -
  have a: "''Sales'' \<notin> set (columns (frame (w0\<lparr>heap := [no_sales_table]\<rparr>) 0))"
    by (simp add: frame_def w0_def no_sales_table_def columns_def)
  show ?thesis
    using missing_columns_are_skipped
      [where w = "w0\<lparr>heap := [no_sales_table]\<rparr>" and r = 0 and lib = example_lib] a
    by simp
qed

text \<open>
  Claim C10.  The columns are recognised by the exact names "Product", "Sales" and "Date".
  A table that has a column whose name differs from one of them in case only, and not the
  exact name, is treated as a table without that column: the aggregation that needs it is
  skipped.
\<close>

theorem column_names_are_case_sensitive:
  assumes "n \<in> set (columns (frame w r))" and "lower n = lower key"
      and "key \<notin> set (columns (frame w r))"
  shows "(key = ''Product'' \<or> key = ''Sales'' \<longrightarrow> sales_by_product lib r w = (Inr (), w))
       \<and> (key = ''Date'' \<or> key = ''Sales'' \<longrightarrow> monthly_sales_trend lib r w = (Inr (), w))"
proof (intro conjI impI)
  assume "key = ''Product'' \<or> key = ''Sales''"
  with assms(3) have "\<not> {''Product'', ''Sales''} \<subseteq> set (columns (frame w r))" by blast
  then show "sales_by_product lib r w = (Inr (), w)" by (rule sales_by_product_skip)
next
  assume "key = ''Date'' \<or> key = ''Sales''"
  with assms(3) have "\<not> {''Date'', ''Sales''} \<subseteq> set (columns (frame w r))" by blast
  then show "monthly_sales_trend lib r w = (Inr (), w)" by (rule monthly_sales_trend_skip)
qed

theorem column_names_are_case_sensitive_witness:
  "''sales'' \<in> set (columns (frame (w0\<lparr>heap := [lowercase_table]\<rparr>) 0))
   \<and> lower ''sales'' = lower ''Sales''
   \<and> ''Sales'' \<notin> set (columns (frame (w0\<lparr>heap := [lowercase_table]\<rparr>) 0))
   \<and> sales_by_product example_lib 0 (w0\<lparr>heap := [lowercase_table]\<rparr>) = (Inr (), w0\<lparr>heap := [lowercase_table]\<rparr>)
   \<and> monthly_sales_trend example_lib 0 (w0\<lparr>heap := [lowercase_table]\<rparr>)
        = (Inr (), w0\<lparr>heap := [lowercase_table]\<rparr>)"
proof -
  have a: "''sales'' \<in> set (columns (frame (w0\<lparr>heap := [lowercase_table]\<rparr>) 0))"
    by (simp add: frame_def w0_def lowercase_table_def columns_def)
  have b: "lower ''sales'' = lower ''Sales''"
    by code_simp
  have c: "''Sales'' \<notin> set (columns (frame (w0\<lparr>heap := [lowercase_table]\<rparr>) 0))"
    by (simp add: frame_def w0_def lowercase_table_def columns_def)
  show ?thesis
    using column_names_are_case_sensitive [where lib = example_lib, OF a b c] a b c by simp
qed



text \<open>
  Claim C9.  Neither aggregation changes a table that was alive before it ran, whatever
  its outcome: \<open>sales_by_product\<close> allocates and assigns nothing, and \<open>monthly_sales_trend\<close>
  assigns the converted "Date" column and the "Month" column to its own copy.
\<close>

theorem aggregations_leave_table_unchanged:
  assumes "i < length (heap w)"
  shows "frame (snd (sales_by_product lib r w)) i = frame w i
       \<and> frame (snd (monthly_sales_trend lib r w)) i = frame w i"
proof
  show "frame (snd (sales_by_product lib r w)) i = frame w i"
    using sales_by_product_frame [of lib r w] by (simp add: frame_def)
  show "frame (snd (monthly_sales_trend lib r w)) i = frame w i"
    using monthly_sales_trend_frame [of w lib r] assms by (simp add: frame_of_prefix)
qed

theorem aggregations_leave_table_unchanged_witness:
  "(0::nat) < length (heap (w0\<lparr>heap := [dates_table]\<rparr>))
   \<and> frame (snd (sales_by_product example_lib 0 (w0\<lparr>heap := [dates_table]\<rparr>))) 0 = dates_table
   \<and> frame (snd (monthly_sales_trend example_lib 0 (w0\<lparr>heap := [dates_table]\<rparr>))) 0 = dates_table
   \<and> get_col (frame (snd (monthly_sales_trend example_lib 0 (w0\<lparr>heap := [dates_table]\<rparr>))) 1) ''Month''
       = Some (PeriodCol [Some (2023, 1), Some (2023, 1), Some (2023, 2)])"
proof -
  have a: "(0::nat) < length (heap (w0\<lparr>heap := [dates_table]\<rparr>))" by simp
  have b: "frame (w0\<lparr>heap := [dates_table]\<rparr>) 0 = dates_table" by (simp add: frame_def)
  have c: "get_col (frame (snd (monthly_sales_trend example_lib 0 (w0\<lparr>heap := [dates_table]\<rparr>))) 1) ''Month''
       = Some (PeriodCol [Some (2023, 1), Some (2023, 1), Some (2023, 2)])"
    by code_simp
  show ?thesis
    using aggregations_leave_table_unchanged [where r = 0 and lib = example_lib, OF a] a b c
    by simp
qed

section \<open>The Writer\<close>

text \<open>
  Claim C1.  When the pipeline runs to its end, the one file it writes holds the table that
  the Loader produced: the header line with the column names, then the rows of the loaded
  table, cell for cell, with no leading index column.  The loaded object itself still holds
  that table after the run.
\<close>

theorem written_table_is_loaded_table:
  assumes "main lib disk a picked w = (Inr u, w')"
  shows "\<exists>p T outp.
           (a = Some p \<or> a = None \<and> picked = Some p)
         \<and> disk p = Some (Inr T)
         \<and> frame w' (length (heap w)) = T
         \<and> written w' = written w @ [(outp, map Str (columns T) # rows T)]"
proof -
  from main_Inr [OF assms] obtain p T outp where
    sel: "(case a of Some q \<Rightarrow> Inr q | None \<Rightarrow> choose_file_gui picked) = Inr p"
    and d: "disk p = Some (Inr T)"
    and wr: "written w' = written w @ [(outp, to_csv T False)]"
    and f: "frame w' (length (heap w)) = T"
    by blast
  from sel have "a = Some p \<or> a = None \<and> picked = Some p"
    by (auto simp: choose_file_gui_def split: option.splits)
  with d f wr show ?thesis
    by (auto simp: to_csv_def)
qed

theorem written_table_is_loaded_table_witness:
  "fst (main example_lib example_disk (Some sales_csv) None w0) = Inr ()
   \<and> map snd (written (snd (main example_lib example_disk (Some sales_csv) None w0)))
       = [[[Str ''Date'', Str ''Product'', Str ''Sales''],
           [Str ''2023-01-05'', Str ''A'', I64 10],
           [Str ''2023-01-20'', Str ''B'', I64 5],
           [Str ''2023-02-01'', Str ''A'', I64 3]]]"
proof -
  obtain w' where run: "main example_lib example_disk (Some sales_csv) None w0
                          = (Inr (), w')"
  proof -
    have "fst (main example_lib example_disk (Some sales_csv) None w0) = Inr ()"
      by code_simp
    then show ?thesis
      using that by (cases "main example_lib example_disk (Some sales_csv) None w0") simp
  qed
  from written_table_is_loaded_table [OF run] obtain p T outp where
    d: "example_disk p = Some (Inr T)"
    and wr: "written w' = written w0 @ [(outp, map Str (columns T) # rows T)]"
    by (elim exE conjE)
  from d have T: "T = full_table"
    by (simp add: example_disk_def split: if_splits)
  have g: "map Str (columns full_table) # rows full_table
       = [[Str ''Date'', Str ''Product'', Str ''Sales''],
           [Str ''2023-01-05'', Str ''A'', I64 10],
           [Str ''2023-01-20'', Str ''B'', I64 5],
           [Str ''2023-02-01'', Str ''A'', I64 3]]"
    by code_simp
  have e0: "written w0 = []"
    by (simp add: w0_def)
  from wr have "map snd (written w') = [map Str (columns full_table) # rows full_table]"
    by (simp add: T e0)
  then show ?thesis
    by (simp add: run g)
qed

lemma stem_suffix: "stem p @ suffix p = name p"
  by (simp add: stem_def suffix_def Let_def split: option.split)

lemma stem_subset: "set (stem p) \<subseteq> set (name p)"
  by (auto simp: stem_def Let_def split: option.split dest: in_set_takeD)

lemma suffix_subset: "set (suffix p) \<subseteq> set (name p)"
  by (auto simp: suffix_def Let_def split: option.split dest: in_set_dropD)

lemma with_stem_Inr:
  "with_stem p s = Inr q \<Longrightarrow> q = Path (anchor p) (parts (parent p) @ [s @ suffix p])"
  by (auto simp: with_stem_def with_name_def parent_def split: if_splits)

lemma with_stem_cleaned_total:
  assumes "wf_path p" and "parts p \<noteq> []"
  shows "with_stem p (stem p @ ''_cleaned'')
           = Inr (Path (anchor p) (parts (parent p) @ [stem p @ ''_cleaned'' @ suffix p]))"
proof -
  have in_parts: "name p \<in> set (parts p)"
    using assms(2) by (simp add: name_def)
  with assms(1) have nm: "name p \<noteq> []" "CHR ''/'' \<notin> set (name p)"
    by (auto simp: wf_path_def list_all_iff)
  have "CHR ''/'' \<notin> set (stem p)" "CHR ''/'' \<notin> set (suffix p)"
    using nm(2) stem_subset [of p] suffix_subset [of p] by blast+
  moreover have "(stem p @ ''_cleaned'') @ suffix p \<noteq> ''.''"
    by (cases "stem p") simp_all
  ultimately show ?thesis
    using nm(1) by (simp add: with_stem_def with_name_def parent_def)
qed

text \<open>
  Claim C8.  The name of a path is its stem followed by its suffix, and the output path of
  line 87 is the input path with the name replaced by stem, "_cleaned" and suffix, in the
  same parent directory.  \<open>with_stem\<close> succeeds on every well-formed path that has a name,
  and a run of \<open>main\<close> that reaches the Writer writes exactly this path.
\<close>

theorem output_path_inserts_cleaned:
  "stem p @ suffix p = name p
   \<and> (wf_path p \<and> parts p \<noteq> [] \<longrightarrow>
        with_stem p (stem p @ ''_cleaned'')
          = Inr (Path (anchor p) (parts (parent p) @ [stem p @ ''_cleaned'' @ suffix p])))
   \<and> (main lib disk (Some p) picked w = (Inr u, w') \<or> main lib disk None (Some p) w = (Inr u, w')
        \<longrightarrow> (\<exists>g. written w' = written w @
                 [(Path (anchor p) (parts (parent p) @ [stem p @ ''_cleaned'' @ suffix p]), g)]))"
proof (intro conjI impI)
  show "stem p @ suffix p = name p" by (rule stem_suffix)
next
  assume "wf_path p \<and> parts p \<noteq> []"
  then show "with_stem p (stem p @ ''_cleaned'')
          = Inr (Path (anchor p) (parts (parent p) @ [stem p @ ''_cleaned'' @ suffix p]))"
    by (simp add: with_stem_cleaned_total)
next
  assume "main lib disk (Some p) picked w = (Inr u, w') \<or> main lib disk None (Some p) w = (Inr u, w')"
  then obtain a pk where m: "main lib disk a pk w = (Inr u, w')"
    and sel: "(case a of Some q \<Rightarrow> Inr q | None \<Rightarrow> choose_file_gui pk) = Inr p"
    by (auto simp: choose_file_gui_def)
  from main_Inr [OF m] sel obtain T outp where
    o: "with_stem p (stem p @ ''_cleaned'') = Inr outp"
    and wr: "written w' = written w @ [(outp, to_csv T False)]"
    by auto
  from with_stem_Inr [OF o] wr
  show "\<exists>g. written w' = written w @
                 [(Path (anchor p) (parts (parent p) @ [stem p @ ''_cleaned'' @ suffix p]), g)]"
    by simp
qed

theorem output_path_inserts_cleaned_witness:
  "wf_path sales_csv \<and> parts sales_csv \<noteq> []
   \<and> stem sales_csv = ''sales'' \<and> suffix sales_csv = ''.csv''
   \<and> with_stem sales_csv (stem sales_csv @ ''_cleaned'') = Inr (Path ''/'' [''data'', ''sales_cleaned.csv''])
   \<and> fst (main example_lib example_disk (Some sales_csv) None w0) = Inr ()
   \<and> map fst (written (snd (main example_lib example_disk (Some sales_csv) None w0)))
       = [Path ''/'' [''data'', ''sales_cleaned.csv'']]"
proof -
  have wf: "wf_path sales_csv \<and> parts sales_csv \<noteq> []"
    by (simp add: wf_path_def sales_csv_def)
  have st: "stem sales_csv = ''sales''" "suffix sales_csv = ''.csv''"
    by (simp_all add: stem_def suffix_def name_def sales_csv_def)
  have pa: "anchor sales_csv = ''/''" "parts (parent sales_csv) = [''data'']"
    by (simp_all add: parent_def sales_csv_def)
  have e0: "written w0 = []"
    by (simp add: w0_def)
  have ok: "fst (main example_lib example_disk (Some sales_csv) None w0) = Inr ()"
    by code_simp
  then have run: "main example_lib example_disk (Some sales_csv) None w0
      = (Inr (), snd (main example_lib example_disk (Some sales_csv) None w0))"
    by (metis prod.collapse)
  show ?thesis
    using output_path_inserts_cleaned
      [where p = sales_csv and lib = example_lib and disk = example_disk
         and picked = None and w = w0 and u = "()"
         and w' = "snd (main example_lib example_disk (Some sales_csv) None w0)"]
      wf run ok e0
    by (auto simp: st pa)
qed

section \<open>The temporal aggregation\<close>

lemma monthly_months_series:
  assumes dc: "get_col (frame w r) ''Date'' = Some dc"
      and sv: "get_col (frame w r) ''Sales'' = Some sc"
      and td: "to_datetime lib dc = Inr (DateCol ts)"
      and gs: "groupby_named_sum lib
                 (setitem (setitem (frame w r) ''Date'' (DateCol ts)) ''Month''
                    (PeriodCol (map (map_option to_period) ts))) ''Month'' ''Sales'' = Inr S"
  shows "\<exists>W. out W = out w
           \<and> monthly_sales_trend lib r w =
               (case plot_error Line S of
                  Some e \<Rightarrow> (Inl e, W)
                | None \<Rightarrow> (Inr (), W\<lparr>out := out w @
                              [Plot Line ''Monthly Sales Trend'' ''Total Sales'' S]\<rparr>))"
proof -
  have cols: "{''Date'', ''Sales''} \<subseteq> set (columns (frame w r))"
    using dc sv by (simp add: get_col_in_columns)
  have tp: "to_period_M (DateCol ts) = Inr (PeriodCol (map (map_option to_period) ts))"
    by (simp add: to_period_M_def)
  let ?W = "df_setitem (length (heap w)) ''Month'' (PeriodCol (map (map_option to_period) ts))
              (df_setitem (length (heap w)) ''Date'' (DateCol ts)
                 (w\<lparr>heap := heap w @ [frame w r]\<rparr>))"
  have "out ?W = out w"
    by simp
  moreover have "monthly_sales_trend lib r w =
               (case plot_error Line S of
                  Some e \<Rightarrow> (Inl e, ?W)
                | None \<Rightarrow> (Inr (), ?W\<lparr>out := out w @
                              [Plot Line ''Monthly Sales Trend'' ''Total Sales'' S]\<rparr>))"
    unfolding monthly_sales_trend_unfold [OF cols]
    by (simp only: dc td tp gs option.case sum.case)
  ultimately show ?thesis
    by blast
qed

lemma groupby_month_int:
  assumes "get_col d ''Sales'' = Some (IntCol vs)"
  shows "groupby_named_sum lib (setitem (setitem d ''Date'' dates) ''Month'' (PeriodCol ms))
           ''Month'' ''Sales''
         = Inr (IntSeries (map (\<lambda>(k, v). (LMonth k, v)) (groupby_agg sum_list ms vs)))"
  by (simp add: groupby_named_sum_def get_col_setitem assms groupby_col_def)

lemma groupby_month_float:
  assumes "get_col d ''Sales'' = Some (FloatCol vs)"
  shows "groupby_named_sum lib (setitem (setitem d ''Date'' dates) ''Month'' (PeriodCol ms))
           ''Month'' ''Sales''
         = Inr (FloatSeries (map (\<lambda>(k, v). (LMonth k, v))
                  (groupby_agg (\<lambda>g. float_sum lib (List.map_filter id g)) ms vs)))"
  by (simp add: groupby_named_sum_def get_col_setitem assms groupby_col_def)

lemma month_key_iff:
  "Some k \<in> set (map (map_option to_period) ts) \<longleftrightarrow> (\<exists>t. Some t \<in> set ts \<and> to_period t = k)"
  by (auto simp: image_iff map_option_case split: option.splits) force

lemma no_month_key_iff:
  "(\<forall>k. Some k \<notin> set (map (map_option to_period) ts)) \<longleftrightarrow> (\<forall>t. Some t \<notin> set ts)"
  by (simp only: month_key_iff) blast

lemma month_group_values:
  "group_values (map (map_option to_period) ts) vs k = month_rows ts vs k"
  unfolding group_values_def month_rows_def by (rule filter_zip_map_key)

lemma groupby_month_entry:
  "(k, v) \<in> set (groupby_agg f (map (map_option to_period) ts) vs) \<longleftrightarrow>
     (\<exists>t. Some t \<in> set ts \<and> to_period t = k) \<and> v = f (month_rows ts vs k)"
  by (simp only: groupby_agg_entry month_key_iff month_group_values)

lemma groupby_month_total:
  fixes vs :: "('v::comm_monoid_add) list"
  shows "sum_list (map snd (groupby_agg sum_list (map (map_option to_period) ts) vs))
     = sum_list (dated_rows ts vs)"
proof -
  have "map snd (filter (\<lambda>(k, v). k \<noteq> None) (zip (map (map_option to_period) ts) vs))
          = dated_rows ts vs"
    using filter_zip_map_key [of "\<lambda>k. k \<noteq> None" "map_option to_period" ts vs]
    by (simp add: dated_rows_def)
  then show ?thesis
    by (simp only: groupby_agg_sum_total)
qed

lemma monthly_trend_run:
  fixes f :: "'v list \<Rightarrow> 'a" and mk :: "(Period \<times> 'a) list \<Rightarrow> ('f::linorder) series"
  assumes dc: "get_col (frame w r) ''Date'' = Some dc"
      and sv: "get_col (frame w r) ''Sales'' = Some sc"
      and td: "to_datetime lib dc = Inr (DateCol ts)"
      and gs: "\<And>d dates ms. groupby_named_sum lib
                 (setitem (setitem (frame w r) ''Date'' dates) ''Month'' (PeriodCol ms))
                 ''Month'' ''Sales'' = Inr (mk (groupby_agg f ms vs))"
      and pe: "\<And>xs. plot_error Line (mk xs)
                  = (if xs = [] then Some (Raised ValueError In_plot) else None)"
  shows "((\<exists>t. Some t \<in> set ts) \<longrightarrow>
            (\<exists>ms w'. monthly_sales_trend lib r w = (Inr (), w')
               \<and> out w' = out w @ [Plot Line ''Monthly Sales Trend'' ''Total Sales'' (mk ms)]
               \<and> ms = groupby_agg f (map (map_option to_period) ts) vs))
       \<and> ((\<forall>t. Some t \<notin> set ts) \<longrightarrow>
            (\<exists>w'. monthly_sales_trend lib r w = (Inl (Raised ValueError In_plot), w')
               \<and> out w' = out w))"
proof -
  let ?ms = "groupby_agg f (map (map_option to_period) ts) vs"
  from monthly_months_series [OF dc sv td gs] obtain W where
    o: "out W = out w"
    and run: "monthly_sales_trend lib r w =
               (case plot_error Line (mk ?ms) of
                  Some e \<Rightarrow> (Inl e, W)
                | None \<Rightarrow> (Inr (), W\<lparr>out := out w @
                              [Plot Line ''Monthly Sales Trend'' ''Total Sales'' (mk ?ms)]\<rparr>))"
    by (elim exE conjE)
  have e: "?ms = [] \<longleftrightarrow> (\<forall>t. Some t \<notin> set ts)"
    by (simp only: groupby_agg_Nil no_month_key_iff)
  show ?thesis
  proof (intro conjI impI)
    assume "\<exists>t. Some t \<in> set ts"
    with e have "?ms \<noteq> []" by blast
    with run have "monthly_sales_trend lib r w
        = (Inr (), W\<lparr>out := out w @ [Plot Line ''Monthly Sales Trend'' ''Total Sales'' (mk ?ms)]\<rparr>)"
      by (simp add: pe)
    then show "\<exists>ms w'. monthly_sales_trend lib r w = (Inr (), w')
               \<and> out w' = out w @ [Plot Line ''Monthly Sales Trend'' ''Total Sales'' (mk ms)]
               \<and> ms = ?ms"
      by simp
  next
    assume "\<forall>t. Some t \<notin> set ts"
    with e have "?ms = []" by blast
    with run have "monthly_sales_trend lib r w = (Inl (Raised ValueError In_plot), W)"
      by (simp add: pe)
    with o show "\<exists>w'. monthly_sales_trend lib r w = (Inl (Raised ValueError In_plot), w')
               \<and> out w' = out w"
      by simp
  qed
qed

text \<open>
  Claim C3, as the code has it.  Take a table whose "Date" column converts to the
  timestamps \<open>ts\<close> (a missing date converting to NaT) and whose "Sales" column is numeric.
  When at least one row has a date, \<open>monthly_sales_trend\<close> returns normally and draws one
  line chart of a series \<open>ms\<close> with one entry per calendar month (year and month, the day
  dropped) in which a row falls, holding the sum of the "Sales" of the rows of that month,
  the entries in strictly ascending, hence non-decreasing, chronological order.  For int64
  "Sales" the values add up, in int64 arithmetic, to the sum of "Sales" over the rows that
  have a date; for float64 "Sales" each value is the float sum of the month's rows that
  are not NaN, and no exact total is stated.  When no row has a date, the series is empty
  and the plotting call raises ValueError, with no chart drawn.
\<close>

theorem monthly_trend_by_month_ordered:
  fixes lib :: "('f::linorder) library"
  assumes "get_col (frame w r) ''Date'' = Some dc"
      and "to_datetime lib dc = Inr (DateCol ts)"
  shows "(\<forall>vs. get_col (frame w r) ''Sales'' = Some (IntCol vs) \<longrightarrow>
            ((\<exists>t. Some t \<in> set ts) \<longrightarrow>
               (\<exists>ms w'. monthly_sales_trend lib r w = (Inr (), w')
                  \<and> out w' = out w @ [Plot Line ''Monthly Sales Trend'' ''Total Sales''
                                        (IntSeries (map (\<lambda>(k, v). (LMonth k, v)) ms))]
                  \<and> (\<forall>k v. (k, v) \<in> set ms \<longleftrightarrow>
                         (\<exists>t. Some t \<in> set ts \<and> to_period t = k)
                         \<and> v = sum_list (month_rows ts vs k))
                  \<and> sorted_wrt (<) (map fst ms)
                  \<and> sum_list (map snd ms) = sum_list (dated_rows ts vs)))
          \<and> ((\<forall>t. Some t \<notin> set ts) \<longrightarrow>
               (\<exists>w'. monthly_sales_trend lib r w = (Inl (Raised ValueError In_plot), w')
                  \<and> out w' = out w)))
       \<and> (\<forall>vs. get_col (frame w r) ''Sales'' = Some (FloatCol vs) \<longrightarrow>
            ((\<exists>t. Some t \<in> set ts) \<longrightarrow>
               (\<exists>ms w'. monthly_sales_trend lib r w = (Inr (), w')
                  \<and> out w' = out w @ [Plot Line ''Monthly Sales Trend'' ''Total Sales''
                                        (FloatSeries (map (\<lambda>(k, v). (LMonth k, v)) ms))]
                  \<and> (\<forall>k v. (k, v) \<in> set ms \<longleftrightarrow>
                         (\<exists>t. Some t \<in> set ts \<and> to_period t = k)
                         \<and> v = float_sum lib (List.map_filter id (month_rows ts vs k)))
                  \<and> sorted_wrt (<) (map fst ms)))
          \<and> ((\<forall>t. Some t \<notin> set ts) \<longrightarrow>
               (\<exists>w'. monthly_sales_trend lib r w = (Inl (Raised ValueError In_plot), w')
                  \<and> out w' = out w)))"
proof (intro conjI allI impI)
  fix vs
  assume sv: "get_col (frame w r) ''Sales'' = Some (IntCol vs)"
  let ?mk = "\<lambda>ms. IntSeries (map (\<lambda>(k, v). (LMonth k :: 'f label, v)) ms)"
  note run = monthly_trend_run [where mk = ?mk and f = sum_list and vs = vs,
      OF assms(1) sv assms(2) groupby_month_int [OF sv]]
  have pe: "plot_error Line (?mk xs)
              = (if xs = [] then Some (Raised ValueError In_plot) else None)" for xs
    by (simp add: plot_error_def)
  {
    assume "\<exists>t. Some t \<in> set ts"
    with run [OF pe] obtain ms w' where
      "monthly_sales_trend lib r w = (Inr (), w')"
      "out w' = out w @ [Plot Line ''Monthly Sales Trend'' ''Total Sales'' (?mk ms)]"
      and ms: "ms = groupby_agg sum_list (map (map_option to_period) ts) vs"
      by blast
    moreover have "\<forall>k v. (k, v) \<in> set ms \<longleftrightarrow>
                         (\<exists>t. Some t \<in> set ts \<and> to_period t = k)
                         \<and> v = sum_list (month_rows ts vs k)"
      unfolding ms by (simp only: groupby_month_entry simp_thms)
    moreover have "sorted_wrt (<) (map fst ms)"
      unfolding ms by (rule groupby_agg_strict)
    moreover have "sum_list (map snd ms) = sum_list (dated_rows ts vs)"
      unfolding ms by (rule groupby_month_total)
    ultimately show "\<exists>ms w'. monthly_sales_trend lib r w = (Inr (), w')
                  \<and> out w' = out w @ [Plot Line ''Monthly Sales Trend'' ''Total Sales''
                                        (IntSeries (map (\<lambda>(k, v). (LMonth k, v)) ms))]
                  \<and> (\<forall>k v. (k, v) \<in> set ms \<longleftrightarrow>
                         (\<exists>t. Some t \<in> set ts \<and> to_period t = k)
                         \<and> v = sum_list (month_rows ts vs k))
                  \<and> sorted_wrt (<) (map fst ms)
                  \<and> sum_list (map snd ms) = sum_list (dated_rows ts vs)"
      by blast
  }
  {
    assume "\<forall>t. Some t \<notin> set ts"
    with run [OF pe]
    show "\<exists>w'. monthly_sales_trend lib r w = (Inl (Raised ValueError In_plot), w')
                  \<and> out w' = out w"
      by blast
  }
next
  fix vs
  assume sv: "get_col (frame w r) ''Sales'' = Some (FloatCol vs)"
  let ?mk = "\<lambda>ms. FloatSeries (map (\<lambda>(k, v). (LMonth k :: 'f label, v)) ms)"
  let ?f = "\<lambda>g. float_sum lib (List.map_filter id g)"
  note run = monthly_trend_run [where mk = ?mk and f = ?f and vs = vs,
      OF assms(1) sv assms(2) groupby_month_float [OF sv]]
  have pe: "plot_error Line (?mk xs)
              = (if xs = [] then Some (Raised ValueError In_plot) else None)" for xs
    by (simp add: plot_error_def)
  {
    assume "\<exists>t. Some t \<in> set ts"
    with run [OF pe] obtain ms w' where
      "monthly_sales_trend lib r w = (Inr (), w')"
      "out w' = out w @ [Plot Line ''Monthly Sales Trend'' ''Total Sales'' (?mk ms)]"
      and ms: "ms = groupby_agg ?f (map (map_option to_period) ts) vs"
      by blast
    moreover have "\<forall>k v. (k, v) \<in> set ms \<longleftrightarrow>
                         (\<exists>t. Some t \<in> set ts \<and> to_period t = k)
                         \<and> v = float_sum lib (List.map_filter id (month_rows ts vs k))"
      unfolding ms by (simp only: groupby_month_entry simp_thms)
    moreover have "sorted_wrt (<) (map fst ms)"
      unfolding ms by (rule groupby_agg_strict)
    ultimately show "\<exists>ms w'. monthly_sales_trend lib r w = (Inr (), w')
                  \<and> out w' = out w @ [Plot Line ''Monthly Sales Trend'' ''Total Sales''
                                        (FloatSeries (map (\<lambda>(k, v). (LMonth k, v)) ms))]
                  \<and> (\<forall>k v. (k, v) \<in> set ms \<longleftrightarrow>
                         (\<exists>t. Some t \<in> set ts \<and> to_period t = k)
                         \<and> v = float_sum lib (List.map_filter id (month_rows ts vs k)))
                  \<and> sorted_wrt (<) (map fst ms)"
      by blast
  }
  {
    assume "\<forall>t. Some t \<notin> set ts"
    with run [OF pe]
    show "\<exists>w'. monthly_sales_trend lib r w = (Inl (Raised ValueError In_plot), w')
                  \<and> out w' = out w"
      by blast
  }
qed

theorem monthly_trend_by_month_ordered_witness:
  "get_col (frame (w0\<lparr>heap := [dates_table]\<rparr>) 0) ''Date''
     = Some (StrCol [Some ''2023-01-05'', Some ''2023-01-20'', Some ''2023-02-01''])
   \<and> to_datetime example_lib (StrCol [Some ''2023-01-05'', Some ''2023-01-20'', Some ''2023-02-01''])
       = Inr (DateCol [Some (2023, 1, 5), Some (2023, 1, 20), Some (2023, 2, 1)])
   \<and> get_col (frame (w0\<lparr>heap := [dates_table]\<rparr>) 0) ''Sales'' = Some (IntCol [10, 5, 7])
   \<and> Some (2023, 1, 5) \<in> set [Some (2023, 1, 5), Some (2023, 1, 20), Some (2023 :: int, 2 :: nat, 1 :: nat)]
   \<and> fst (monthly_sales_trend example_lib 0 (w0\<lparr>heap := [dates_table]\<rparr>)) = Inr ()
   \<and> out (snd (monthly_sales_trend example_lib 0 (w0\<lparr>heap := [dates_table]\<rparr>)))
       = [Plot Line ''Monthly Sales Trend'' ''Total Sales''
            (IntSeries [(LMonth (2023, 1), 15), (LMonth (2023, 2), 7)])]
   \<and> get_col (frame (w0\<lparr>heap := [no_date_table]\<rparr>) 0) ''Date'' = Some (FloatCol [None, None])
   \<and> to_datetime example_lib (FloatCol [None, None]) = Inr (DateCol [None, None])
   \<and> get_col (frame (w0\<lparr>heap := [no_date_table]\<rparr>) 0) ''Sales'' = Some (IntCol [10, 5])
   \<and> (\<forall>t. Some t \<notin> set [None, None :: Timestamp option])
   \<and> fst (monthly_sales_trend example_lib 0 (w0\<lparr>heap := [no_date_table]\<rparr>))
       = Inl (Raised ValueError In_plot)
   \<and> get_col (frame (w0\<lparr>heap := [float_dates_table]\<rparr>) 0) ''Date''
       = Some (StrCol [Some ''2023-01-05'', Some ''2023-01-20'', Some ''2023-02-01''])
   \<and> get_col (frame (w0\<lparr>heap := [float_dates_table]\<rparr>) 0) ''Sales''
       = Some (FloatCol [Some (5 / 2), None, Some 7])
   \<and> fst (monthly_sales_trend example_lib 0 (w0\<lparr>heap := [float_dates_table]\<rparr>)) = Inr ()
   \<and> out (snd (monthly_sales_trend example_lib 0 (w0\<lparr>heap := [float_dates_table]\<rparr>)))
       = [Plot Line ''Monthly Sales Trend'' ''Total Sales''
            (FloatSeries [(LMonth (2023, 1), 5 / 2), (LMonth (2023, 2), 7)])]
   \<and> get_col (frame (w0\<lparr>heap := [float_no_date_table]\<rparr>) 0) ''Date'' = Some (FloatCol [None])
   \<and> to_datetime example_lib (FloatCol [None]) = Inr (DateCol [None])
   \<and> get_col (frame (w0\<lparr>heap := [float_no_date_table]\<rparr>) 0) ''Sales'' = Some (FloatCol [Some (1 / 2)])
   \<and> (\<forall>t. Some t \<notin> set [None :: Timestamp option])
   \<and> fst (monthly_sales_trend example_lib 0 (w0\<lparr>heap := [float_no_date_table]\<rparr>))
       = Inl (Raised ValueError In_plot)"
proof -
  let ?texts = "StrCol [Some ''2023-01-05'', Some ''2023-01-20'', Some ''2023-02-01''] :: rat column"
  let ?ts = "[Some (2023, 1, 5), Some (2023, 1, 20), Some (2023 :: int, 2 :: nat, 1 :: nat)]"
  have a1: "get_col (frame (w0\<lparr>heap := [dates_table]\<rparr>) 0) ''Date'' = Some ?texts"
    by (simp add: frame_def dates_table_def get_col_def)
  have b1: "to_datetime example_lib ?texts = Inr (DateCol ?ts)"
    by code_simp
  have c1: "get_col (frame (w0\<lparr>heap := [dates_table]\<rparr>) 0) ''Sales'' = Some (IntCol [10, 5, 7])"
    by (simp add: frame_def dates_table_def get_col_def)
  have d1: "Some (2023, 1, 5) \<in> set ?ts"
    by simp
  have e1: "out (snd (monthly_sales_trend example_lib 0 (w0\<lparr>heap := [dates_table]\<rparr>)))
       = [Plot Line ''Monthly Sales Trend'' ''Total Sales''
            (IntSeries [(LMonth (2023, 1), 15), (LMonth (2023, 2), 7)])]"
    by code_simp
  from monthly_trend_by_month_ordered [OF a1 b1] c1 d1
  have f1: "fst (monthly_sales_trend example_lib 0 (w0\<lparr>heap := [dates_table]\<rparr>)) = Inr ()"
    by fastforce
  have a2: "get_col (frame (w0\<lparr>heap := [no_date_table]\<rparr>) 0) ''Date'' = Some (FloatCol [None, None])"
    by (simp add: frame_def no_date_table_def get_col_def)
  have b2: "to_datetime example_lib (FloatCol [None, None]) = Inr (DateCol [None, None])"
    by code_simp
  have c2: "get_col (frame (w0\<lparr>heap := [no_date_table]\<rparr>) 0) ''Sales'' = Some (IntCol [10, 5])"
    by (simp add: frame_def no_date_table_def get_col_def)
  have d2: "\<forall>t. Some t \<notin> set [None, None :: Timestamp option]"
    by simp
  from monthly_trend_by_month_ordered [OF a2 b2] c2 d2
  have f2: "fst (monthly_sales_trend example_lib 0 (w0\<lparr>heap := [no_date_table]\<rparr>))
       = Inl (Raised ValueError In_plot)"
    by fastforce
  have a3: "get_col (frame (w0\<lparr>heap := [float_dates_table]\<rparr>) 0) ''Date'' = Some ?texts"
    by (simp add: frame_def float_dates_table_def get_col_def)
  have c3: "get_col (frame (w0\<lparr>heap := [float_dates_table]\<rparr>) 0) ''Sales''
       = Some (FloatCol [Some (5 / 2), None, Some 7])"
    by (simp add: frame_def float_dates_table_def get_col_def)
  have e3: "out (snd (monthly_sales_trend example_lib 0 (w0\<lparr>heap := [float_dates_table]\<rparr>)))
       = [Plot Line ''Monthly Sales Trend'' ''Total Sales''
            (FloatSeries [(LMonth (2023, 1), 5 / 2), (LMonth (2023, 2), 7)])]"
    by code_simp
  from monthly_trend_by_month_ordered [OF a3 b1] c3 d1
  have f3: "fst (monthly_sales_trend example_lib 0 (w0\<lparr>heap := [float_dates_table]\<rparr>)) = Inr ()"
    by fastforce
  have a4: "get_col (frame (w0\<lparr>heap := [float_no_date_table]\<rparr>) 0) ''Date'' = Some (FloatCol [None])"
    by (simp add: frame_def float_no_date_table_def get_col_def)
  have b4: "to_datetime example_lib (FloatCol [None]) = Inr (DateCol [None])"
    by code_simp
  have c4: "get_col (frame (w0\<lparr>heap := [float_no_date_table]\<rparr>) 0) ''Sales'' = Some (FloatCol [Some (1 / 2)])"
    by (simp add: frame_def float_no_date_table_def get_col_def)
  have d4: "\<forall>t. Some t \<notin> set [None :: Timestamp option]"
    by simp
  from monthly_trend_by_month_ordered [OF a4 b4] c4 d4
  have f4: "fst (monthly_sales_trend example_lib 0 (w0\<lparr>heap := [float_no_date_table]\<rparr>))
       = Inl (Raised ValueError In_plot)"
    by fastforce
  from a1 b1 c1 d1 f1 e1 a2 b2 c2 d2 f2 a3 c3 f3 e3 a4 b4 c4 d4 f4 show ?thesis
    by (simp only: simp_thms)
qed

text \<open>
  Claim C3 as stated, with the whole-table total, fails on a table whose second row has no
  date: the column converts (the missing date becomes NaT), the grouping drops the row,
  and the monthly sums add up to 10 where the "Sales" column adds up to 15.
\<close>

theorem monthly_total_counterexample:
  "fst (monthly_sales_trend example_lib 0 (w0\<lparr>heap := [missing_date_table]\<rparr>)) = Inr ()
   \<and> out (snd (monthly_sales_trend example_lib 0 (w0\<lparr>heap := [missing_date_table]\<rparr>)))
       = [Plot Line ''Monthly Sales Trend'' ''Total Sales'' (IntSeries [(LMonth (2023, 1), 10)])]
   \<and> series_total (IntSeries [(LMonth (2023, 1), 10)] :: rat series) = Some 10
   \<and> column_total missing_date_table ''Sales'' = Some 15
   \<and> series_total (IntSeries [(LMonth (2023, 1), 10)] :: rat series)
       \<noteq> column_total missing_date_table ''Sales''"
  by code_simp

section \<open>A date that does not convert\<close>

lemma to_datetime_fails:
  assumes "c \<in> set (cells dc)" and "is_raw c" and "convert lib c = Fails"
  shows "to_datetime lib dc = Inl (Raised ValueError In_to_datetime)"
proof -
  have "(case c of NA \<Rightarrow> IsNaT | Date t \<Rightarrow> IsTime t | _ \<Rightarrow> convert lib c) = Fails"
    using assms(2,3) by (cases c) (simp_all add: is_raw_def)
  then have f: "Fails \<in> set (convert_cells lib dc)"
    using assms(1) by (force simp: convert_cells_def image_iff)
  show ?thesis
  proof (cases dc)
    case (PeriodCol ps)
    with assms(1) have "\<not> is_raw c"
      by (auto simp: is_raw_def split: option.splits)
    with assms(2) show ?thesis
      by simp
  qed (use f in \<open>simp_all add: to_datetime_def\<close>)
qed

lemma monthly_sales_trend_fails:
  assumes "get_col (frame w r) ''Date'' = Some dc"
      and "''Sales'' \<in> set (columns (frame w r))"
      and "c \<in> set (cells dc)" and "is_raw c" and "convert lib c = Fails"
  shows "monthly_sales_trend lib r w
           = (Inl (Raised ValueError In_to_datetime), w\<lparr>heap := heap w @ [frame w r]\<rparr>)"
proof -
  have cols: "{''Date'', ''Sales''} \<subseteq> set (columns (frame w r))"
    using assms(1,2) by (simp add: get_col_in_columns)
  show ?thesis
    unfolding monthly_sales_trend_unfold [OF cols]
    by (simp add: assms(1)
          to_datetime_fails [where lib = lib and c = c and dc = dc, OF assms(3,4,5)])
qed

lemma sort_desc_Nil: "sort_desc tb key xs = [] \<longleftrightarrow> xs = []"
  using sort_desc_mset [of tb key xs] by (metis mset_zero_iff)

lemma sales_by_product_ok:
  assumes "''Product'' \<notin> set (columns (frame w r))
           \<or> (\<exists>pc sc. get_col (frame w r) ''Product'' = Some pc \<and> True \<in> set (notna pc)
                \<and> get_col (frame w r) ''Sales'' = Some sc \<and> numeric sc)"
  shows "fst (sales_by_product lib r w) = Inr ()"
  using assms
proof (elim disjE exE conjE)
  assume "''Product'' \<notin> set (columns (frame w r))"
  then have "\<not> {''Product'', ''Sales''} \<subseteq> set (columns (frame w r))" by blast
  then show ?thesis by (simp add: sales_by_product_skip)
next
  fix pc sc
  assume pc: "get_col (frame w r) ''Product'' = Some pc" and k: "True \<in> set (notna pc)"
    and sc: "get_col (frame w r) ''Sales'' = Some sc" and n: "numeric sc"
  have cols: "{''Product'', ''Sales''} \<subseteq> set (columns (frame w r))"
    using pc sc by (simp add: get_col_in_columns)
  from n consider vs where "sc = IntCol vs" | vs where "sc = FloatCol vs"
    by (cases sc) (simp_all add: numeric_def)
  then show ?thesis
  proof cases
    case 1
    have "sort_desc (ties lib) sint (groupby_col sum_list pc vs) \<noteq> []"
      using k by (simp add: sort_desc_Nil groupby_col_keys_Nil)
    then show ?thesis
      using cols
      by (simp add: sales_by_product_def sales_by_product_agg_int [OF pc sc [unfolded 1]]
            plot_error_def Let_def)
  next
    case 2
    have "sort_desc (ties lib) (\<lambda>v. v)
            (groupby_col (\<lambda>g. float_sum lib (List.map_filter id g)) pc vs) \<noteq> []"
      using k by (simp add: sort_desc_Nil groupby_col_keys_Nil)
    then show ?thesis
      using cols
      by (simp add: sales_by_product_def sales_by_product_agg_float [OF pc sc [unfolded 2]]
            plot_error_def Let_def)
  qed
qed

lemma sales_by_product_no_line:
  "Plot Line t y s \<in> set (out (snd (sales_by_product lib r w))) \<Longrightarrow> Plot Line t y s \<in> set (out w)"
  by (simp add: sales_by_product_def Let_def split: if_splits sum.splits option.splits)

lemma main_arms: "main lib disk None (Some p) w = main lib disk (Some p) picked w"
  by (simp add: main_def choose_file_gui_def)

lemma main_date_failure:
  assumes d: "disk p = Some (Inr T)"
      and dc: "get_col T ''Date'' = Some dc"
      and sv: "''Sales'' \<in> set (columns T)"
      and bad: "c \<in> set (cells dc)" "is_raw c" "convert lib c = Fails"
  shows "\<exists>e w'. main lib disk (Some p) picked w = (Inl e, w')
           \<and> written w' = written w
           \<and> (\<forall>t y z. Plot Line t y z \<in> set (out w') \<longrightarrow> Plot Line t y z \<in> set (out w))
           \<and> (''Product'' \<notin> set (columns T)
                \<or> (\<exists>pc sc. get_col T ''Product'' = Some pc \<and> True \<in> set (notna pc)
                      \<and> get_col T ''Sales'' = Some sc \<and> numeric sc)
              \<longrightarrow> e = Raised ValueError In_to_datetime)"
proof -
  define k where "k = length (heap w)"
  define w1 where "w1 = w\<lparr>heap := heap w @ [T], out := out w @ [PrintLoaded (len_df T) (name p)]\<rparr>"
  define w2 where "w2 = w1\<lparr>out := out w1 @ [PrintColumns (columns T),
                      PrintMissing (map (\<lambda>(n, c). (n, count_na c)) T), PrintSummary T]\<rparr>"
  define r3 where "r3 = fst (sales_by_product lib k w2)"
  define w3 where "w3 = snd (sales_by_product lib k w2)"
  have l: "load_csv disk p w = (Inr k, w1)"
    by (simp add: load_csv_def d k_def w1_def)
  have f1: "frame w1 k = T"
    by (simp add: frame_def w1_def k_def)
  have ne: "columns T \<noteq> []"
    using get_col_in_columns [OF dc] by auto
  have e: "basic_eda k w1 = (Inr (), w2)"
    by (simp add: basic_eda_def f1 ne w2_def Let_def)
  have f2: "frame w2 k = T"
    using f1 by (simp add: w2_def)
  have b: "sales_by_product lib k w2 = (r3, w3)"
    by (simp add: r3_def w3_def)
  have h3: "heap w3 = heap w2" "written w3 = written w2"
    using sales_by_product_frame [of lib k w2] by (simp_all add: w3_def)
  have "frame w3 k = frame w2 k"
    by (simp add: frame_def h3)
  with f2 have f3: "frame w3 k = T"
    by simp
  have t: "monthly_sales_trend lib k w3
             = (Inl (Raised ValueError In_to_datetime), w3\<lparr>heap := heap w3 @ [frame w3 k]\<rparr>)"
    by (rule monthly_sales_trend_fails [where c = c and dc = dc])
       (simp_all add: f3 dc sv bad)
  have wr: "written w3 = written w"
    by (simp add: h3 w2_def w1_def)
  have nl: "Plot Line t y z \<in> set (out w)" if "Plot Line t y z \<in> set (out w3)" for t y z
  proof -
    from that have "Plot Line t y z \<in> set (out w2)"
      unfolding w3_def by (rule sales_by_product_no_line)
    then show ?thesis
      by (simp add: w2_def w1_def)
  qed
  have reach: "r3 = Inr ()"
    if "''Product'' \<notin> set (columns T)
                \<or> (\<exists>pc sc. get_col T ''Product'' = Some pc \<and> True \<in> set (notna pc)
                      \<and> get_col T ''Sales'' = Some sc \<and> numeric sc)"
    unfolding r3_def by (rule sales_by_product_ok) (use that f2 in simp)
  show ?thesis
  proof (cases r3)
    case (Inl e3)
    then have "main lib disk (Some p) picked w = (Inl e3, w3)"
      by (simp add: main_def l e b)
    with wr nl reach Inl show ?thesis
      by auto
  next
    case (Inr u)
    then have "main lib disk (Some p) picked w
                 = (Inl (Raised ValueError In_to_datetime), w3\<lparr>heap := heap w3 @ [frame w3 k]\<rparr>)"
      by (simp add: main_def l e b t)
    with wr nl show ?thesis
      by auto
  qed
qed

text \<open>
  Claim C6.  When a text or a number in the "Date" column does not convert to a date,
  \<open>monthly_sales_trend\<close> raises the ValueError of \<^verbatim>\<open>pd.to_datetime\<close> before it groups
  anything: it draws no chart and prints nothing.  Nothing in \<open>main\<close> catches an exception:
  the run of a file holding such a table, chosen by \<^verbatim>\<open>--file\<close> or in the dialog, ends with
  an exception, writes no file and draws no trend chart; and when the categorical stage
  before it returns normally (no "Product" column, or a product in some row and numeric
  "Sales"), the exception that ends the run is that ValueError.
\<close>

theorem unparseable_date_fails_fast:
  assumes "get_col T ''Date'' = Some dc" and "''Sales'' \<in> set (columns T)"
      and "c \<in> set (cells dc)" and "is_raw c" and "convert lib c = Fails"
  shows "(frame w r = T \<longrightarrow>
            (\<exists>w1. monthly_sales_trend lib r w = (Inl (Raised ValueError In_to_datetime), w1)
                \<and> out w1 = out w \<and> written w1 = written w))
       \<and> (disk p = Some (Inr T) \<longrightarrow>
            (\<exists>e w'. main lib disk (Some p) picked w = (Inl e, w')
                \<and> main lib disk None (Some p) w = (Inl e, w')
                \<and> written w' = written w
                \<and> (\<forall>t y z. Plot Line t y z \<in> set (out w') \<longrightarrow> Plot Line t y z \<in> set (out w))
                \<and> (''Product'' \<notin> set (columns T)
                     \<or> (\<exists>pc sc. get_col T ''Product'' = Some pc \<and> True \<in> set (notna pc)
                           \<and> get_col T ''Sales'' = Some sc \<and> numeric sc)
                   \<longrightarrow> e = Raised ValueError In_to_datetime)))"
proof (intro conjI impI)
  assume f: "frame w r = T"
  have "monthly_sales_trend lib r w
          = (Inl (Raised ValueError In_to_datetime), w\<lparr>heap := heap w @ [frame w r]\<rparr>)"
    by (rule monthly_sales_trend_fails [where c = c and dc = dc])
       (simp_all add: f assms)
  then show "\<exists>w1. monthly_sales_trend lib r w = (Inl (Raised ValueError In_to_datetime), w1)
                \<and> out w1 = out w \<and> written w1 = written w"
    by simp
next
  assume d: "disk p = Some (Inr T)"
  from main_date_failure
    [where disk = disk and p = p and T = T and dc = dc and c = c and lib = lib
       and picked = picked and w = w, OF d assms]
  show "\<exists>e w'. main lib disk (Some p) picked w = (Inl e, w')
                \<and> main lib disk None (Some p) w = (Inl e, w')
                \<and> written w' = written w
                \<and> (\<forall>t y z. Plot Line t y z \<in> set (out w') \<longrightarrow> Plot Line t y z \<in> set (out w))
                \<and> (''Product'' \<notin> set (columns T)
                     \<or> (\<exists>pc sc. get_col T ''Product'' = Some pc \<and> True \<in> set (notna pc)
                           \<and> get_col T ''Sales'' = Some sc \<and> numeric sc)
                   \<longrightarrow> e = Raised ValueError In_to_datetime)"
    by (simp only: main_arms [of lib disk p w picked]) blast
qed

theorem unparseable_date_fails_fast_witness:
  "get_col bad_date_table ''Date'' = Some (StrCol [Some ''2023-01-05'', Some ''not a date''])
   \<and> ''Sales'' \<in> set (columns bad_date_table)
   \<and> Str ''not a date'' \<in> set (cells (StrCol [Some ''2023-01-05'', Some ''not a date''] :: rat column))
   \<and> is_raw (Str ''not a date'' :: rat cell)
   \<and> convert example_lib (Str ''not a date'') = Fails
   \<and> frame (w0\<lparr>heap := [bad_date_table]\<rparr>) 0 = bad_date_table
   \<and> bad_date_disk sales_csv = Some (Inr bad_date_table)
   \<and> ''Product'' \<notin> set (columns bad_date_table)
   \<and> fst (monthly_sales_trend example_lib 0 (w0\<lparr>heap := [bad_date_table]\<rparr>))
       = Inl (Raised ValueError In_to_datetime)
   \<and> fst (main example_lib bad_date_disk (Some sales_csv) None w0)
       = Inl (Raised ValueError In_to_datetime)
   \<and> fst (main example_lib bad_date_disk None (Some sales_csv) w0)
       = Inl (Raised ValueError In_to_datetime)
   \<and> written (snd (main example_lib bad_date_disk (Some sales_csv) None w0)) = []"
proof -
  let ?dc = "StrCol [Some ''2023-01-05'', Some ''not a date''] :: rat column"
  have a: "get_col bad_date_table ''Date'' = Some ?dc"
    by (simp add: bad_date_table_def get_col_def)
  have b: "''Sales'' \<in> set (columns bad_date_table)"
    by (simp add: bad_date_table_def columns_def)
  have c: "Str ''not a date'' \<in> set (cells ?dc)"
    by simp
  have r: "is_raw (Str ''not a date'' :: rat cell)"
    by (simp add: is_raw_def)
  have d: "convert example_lib (Str ''not a date'') = Fails"
    by code_simp
  have e: "frame (w0\<lparr>heap := [bad_date_table]\<rparr>) 0 = bad_date_table"
    by (simp add: frame_def)
  have f: "bad_date_disk sales_csv = Some (Inr bad_date_table)"
    by (simp add: bad_date_disk_def)
  have np: "''Product'' \<notin> set (columns bad_date_table)"
    by (simp add: bad_date_table_def columns_def)
  have g: "written w0 = []"
    by (simp add: w0_def)
  note th = unparseable_date_fails_fast
      [where w = "w0\<lparr>heap := [bad_date_table]\<rparr>" and r = 0 and disk = bad_date_disk
         and p = sales_csv and picked = None and lib = example_lib
         and c = "Str ''not a date''" and dc = ?dc and T = bad_date_table,
       OF a b c r d]
  note th2 = unparseable_date_fails_fast
      [where w = w0 and r = 0 and disk = bad_date_disk and p = sales_csv and picked = None
         and lib = example_lib
         and c = "Str ''not a date''" and dc = ?dc and T = bad_date_table,
       OF a b c r d]
  from th e have m: "fst (monthly_sales_trend example_lib 0 (w0\<lparr>heap := [bad_date_table]\<rparr>))
       = Inl (Raised ValueError In_to_datetime)"
    by auto
  from th2 f g np have "fst (main example_lib bad_date_disk (Some sales_csv) None w0)
         = Inl (Raised ValueError In_to_datetime)
      \<and> fst (main example_lib bad_date_disk None (Some sales_csv) w0)
         = Inl (Raised ValueError In_to_datetime)
      \<and> written (snd (main example_lib bad_date_disk (Some sales_csv) None w0)) = []"
    by auto
  with a b c r d e f np m show ?thesis
    by (simp only: simp_thms)
qed

end
